theory Spec2Isabelle
  imports Main "HOL-Library.Sublist" "HOL-Library.Word"
begin

section \<open>Python text\<close>

text \<open>
  A Python \<open>str\<close> is a sequence of Unicode code points: \<open>len\<close>, \<open>index\<close> and slicing
  count code points, and the formatter writes characters outside Latin-1 (the bullet
  U+2022). A text is therefore a list of code points; \<open>lit\<close> reads an ASCII literal.
\<close>

type_synonym pstr = "nat list"

definition lit :: "string \<Rightarrow> pstr" where
  "lit s = map of_char s"

text \<open>\<open>f"{i}"\<close> for a non-negative integer: its decimal digits, most significant first.\<close>

fun str_of_nat :: "nat \<Rightarrow> pstr" where
  "str_of_nat n = (if n < 10 then [48 + n] else str_of_nat (n div 10) @ [48 + n mod 10])"

declare str_of_nat.simps [simp del]

text \<open>
  Reading a decimal numeral, to state what \<open>str_of_nat\<close> writes: the value of a text that
  is a non-empty run of the digits 0 to 9, and None for any other text.
\<close>

fun digits_value :: "nat \<Rightarrow> pstr \<Rightarrow> nat option" where
  "digits_value acc [] = Some acc"
| "digits_value acc (c # cs) =
     (if 48 \<le> c \<and> c \<le> 57 then digits_value (10 * acc + (c - 48)) cs else None)"

definition nat_of_digits :: "pstr \<Rightarrow> nat option" where
  "nat_of_digits s = (if s = [] then None else digits_value 0 s)"

text \<open>\<open>sep.join(xs)\<close>\<close>

fun join :: "pstr \<Rightarrow> pstr list \<Rightarrow> pstr" where
  "join sep [] = []"
| "join sep [x] = x"
| "join sep (x # y # ys) = x @ sep @ join sep (y # ys)"

section \<open>The summary record (core.py, SumarioPaciente)\<close>

record SumarioPaciente =
  leito :: pstr
  nome_paciente :: pstr
  diagnosticos :: "pstr list"
  pendencias :: "pstr list"
  condutas :: "pstr list"

text \<open>The three section headers and the bullet prefix of \<open>formatar\<close>.\<close>

definition HDR_DIAGNOSTICOS :: pstr where
  "HDR_DIAGNOSTICOS = lit ''Diagn'' @ [243] @ lit ''sticos:''"

definition HDR_PENDENCIAS :: pstr where
  "HDR_PENDENCIAS = lit ''Pend'' @ [234] @ lit ''ncias:''"

definition HDR_CONDUTAS :: pstr where
  "HDR_CONDUTAS = lit ''Condutas:''"

definition BULLET :: pstr where
  "BULLET = [8226, 32]"

text \<open>
  \<open>formatar\<close> builds the list \<open>linhas\<close> by appending, one loop per list field, and joins
  it with newlines. \<open>List.enumerate 1 xs\<close> is Python's \<open>enumerate(xs, 1)\<close>.
\<close>

definition formatar_linhas :: "SumarioPaciente \<Rightarrow> pstr list" where
  "formatar_linhas self =
    (let linhas = [lit ''Leito '' @ leito self @ lit '' - '' @ nome_paciente self, []];
         linhas = linhas @ [HDR_DIAGNOSTICOS];
         linhas = foldl (\<lambda>ls (i, diag). ls @ [str_of_nat i @ lit ''- '' @ diag])
                    linhas (List.enumerate 1 (diagnosticos self));
         linhas = linhas @ [[]];
         linhas = linhas @ [HDR_PENDENCIAS];
         linhas = foldl (\<lambda>ls (i, pend). ls @ [str_of_nat i @ lit ''- '' @ pend])
                    linhas (List.enumerate 1 (pendencias self));
         linhas = linhas @ [[]];
         linhas = linhas @ [HDR_CONDUTAS];
         linhas = foldl (\<lambda>ls conduta. ls @ [BULLET @ conduta]) linhas (condutas self)
     in linhas)"

definition formatar :: "SumarioPaciente \<Rightarrow> pstr" where
  "formatar self = join [10] (formatar_linhas self)"

section \<open>More of Python's text operations\<close>

text \<open>
  \<open>s.find(sub)\<close>: the lowest index at which \<open>sub\<close> occurs in \<open>s\<close>, if any. The operator
  \<open>sub in s\<close> and the method \<open>s.index(sub)\<close> are the same search: the first says whether
  there is an occurrence, the second returns the lowest one or raises ValueError.
\<close>

fun py_find :: "pstr \<Rightarrow> pstr \<Rightarrow> nat option" where
  "py_find sub [] = (if sub = [] then Some 0 else None)"
| "py_find sub (c # cs) =
     (if prefix sub (c # cs) then Some 0 else map_option Suc (py_find sub cs))"

definition py_in :: "pstr \<Rightarrow> pstr \<Rightarrow> bool" where
  "py_in sub s = (py_find sub s \<noteq> None)"

text \<open>\<open>s[a:b]\<close> for non-negative \<open>a\<close> and \<open>b\<close>: empty when \<open>b \<le> a\<close>, cut at the end of \<open>s\<close>.\<close>

definition py_slice :: "pstr \<Rightarrow> nat \<Rightarrow> nat \<Rightarrow> pstr" where
  "py_slice s a b = take (b - a) (drop a s)"

text \<open>The code points \<open>str.isspace\<close> accepts, which \<open>str.strip()\<close> removes at both ends.\<close>

definition py_isspace :: "nat \<Rightarrow> bool" where
  "py_isspace c =
     ((9 \<le> c \<and> c \<le> 13) \<or> (28 \<le> c \<and> c \<le> 32) \<or> c = 133 \<or> c = 160 \<or> c = 5760
      \<or> (8192 \<le> c \<and> c \<le> 8202) \<or> c = 8232 \<or> c = 8233 \<or> c = 8239 \<or> c = 8287
      \<or> c = 12288)"

definition py_strip :: "pstr \<Rightarrow> pstr" where
  "py_strip s = rev (dropWhile py_isspace (rev (dropWhile py_isspace s)))"

section \<open>Exceptions and the values of json.loads\<close>

text \<open>
  One entry of a pydantic validation error: the field (and the list index) it is about.
\<close>

datatype field_error =
    Missing pstr
  | StringType pstr
  | ListType pstr
  | ItemStringType pstr nat

text \<open>
  The exceptions that reach this code. \<open>External c m\<close> is an exception of class \<open>c\<close> with
  message \<open>m\<close> raised inside a call of a client library (speech-to-text, generation).
\<close>

datatype exn =
    ValueError
  | TypeError
  | JSONDecodeError pstr
  | ValidationError "field_error list"
  | External pstr pstr

fun exn_class :: "exn \<Rightarrow> pstr" where
  "exn_class ValueError = lit ''ValueError''"
| "exn_class TypeError = lit ''TypeError''"
| "exn_class (JSONDecodeError m) = lit ''JSONDecodeError''"
| "exn_class (ValidationError es) = lit ''ValidationError''"
| "exn_class (External c m) = c"

text \<open>
  What \<open>json.loads\<close> returns: None, a bool, an int, a float (kept as mantissa and
  exponent; nothing below reads it), a str, a list, or a dict with str keys, kept as an
  association list read with \<open>map_of\<close>.
\<close>

datatype pyval =
    PNone
  | PBool bool
  | PInt int
  | PFloat int int
  | PStr pstr
  | PList "pyval list"
  | PDict "(pstr \<times> pyval) list"

section \<open>Constructing the record from keyword arguments\<close>

text \<open>
  \<open>SumarioPaciente\<close> is a pydantic (version 2: the callers use \<open>model_dump\<close>) model with
  five fields, none with a default, and no \<open>model_config\<close>. \<open>SumarioPaciente(**kwargs)\<close>
  validates every field and raises one ValidationError listing every failure. With the
  default configuration, on the values \<open>json.loads\<close> can produce: a \<open>str\<close> field accepts
  a str only; a \<open>list[str]\<close> field accepts a list whose items are all str; keys that name
  no field are ignored.
\<close>

fun str_field :: "pstr \<Rightarrow> pyval option \<Rightarrow> field_error list + pstr" where
  "str_field name None = Inl [Missing name]"
| "str_field name (Some (PStr s)) = Inr s"
| "str_field name (Some v) = Inl [StringType name]"

fun str_items :: "pstr \<Rightarrow> nat \<Rightarrow> pyval list \<Rightarrow> field_error list \<times> pstr list" where
  "str_items name k [] = ([], [])"
| "str_items name k (v # vs) =
     (let (es, ss) = str_items name (Suc k) vs
      in case v of PStr s \<Rightarrow> (es, s # ss) | _ \<Rightarrow> (ItemStringType name k # es, ss))"

fun list_field :: "pstr \<Rightarrow> pyval option \<Rightarrow> field_error list + pstr list" where
  "list_field name None = Inl [Missing name]"
| "list_field name (Some (PList vs)) =
     (let (es, ss) = str_items name 0 vs in if es = [] then Inr ss else Inl es)"
| "list_field name (Some v) = Inl [ListType name]"

fun errors_of :: "field_error list + 'a \<Rightarrow> field_error list" where
  "errors_of (Inl es) = es"
| "errors_of (Inr x) = []"

definition SumarioPaciente_init :: "(pstr \<times> pyval) list \<Rightarrow> exn + SumarioPaciente" where
  "SumarioPaciente_init kwargs =
    (let l = str_field (lit ''leito'') (map_of kwargs (lit ''leito''));
         n = str_field (lit ''nome_paciente'') (map_of kwargs (lit ''nome_paciente''));
         d = list_field (lit ''diagnosticos'') (map_of kwargs (lit ''diagnosticos''));
         p = list_field (lit ''pendencias'') (map_of kwargs (lit ''pendencias''));
         c = list_field (lit ''condutas'') (map_of kwargs (lit ''condutas''))
     in case (l, n, d, p, c) of
          (Inr l', Inr n', Inr d', Inr p', Inr c') \<Rightarrow>
            Inr \<lparr>leito = l', nome_paciente = n', diagnosticos = d', pendencias = p',
                 condutas = c'\<rparr>
        | _ \<Rightarrow>
            Inl (ValidationError
                   (errors_of l @ errors_of n @ errors_of d @ errors_of p @ errors_of c)))"

text \<open>
  \<open>SumarioPaciente(**data)\<close>: the \<open>**\<close> needs a mapping, and raises TypeError on any
  other value.
\<close>

fun SumarioPaciente_call :: "pyval \<Rightarrow> exn + SumarioPaciente" where
  "SumarioPaciente_call (PDict kwargs) = SumarioPaciente_init kwargs"
| "SumarioPaciente_call v = Inl TypeError"

text \<open>\<open>model_dump()\<close>: the record as a dict.\<close>

definition model_dump :: "SumarioPaciente \<Rightarrow> (pstr \<times> pyval) list" where
  "model_dump self =
     [(lit ''leito'', PStr (leito self)),
      (lit ''nome_paciente'', PStr (nome_paciente self)),
      (lit ''diagnosticos'', PList (map PStr (diagnosticos self))),
      (lit ''pendencias'', PList (map PStr (pendencias self))),
      (lit ''condutas'', PList (map PStr (condutas self)))]"

section \<open>The two stages and the pipeline (core.py)\<close>

text \<open>
  The calls into the client libraries are parameters: \<open>groq\<close> stands for
  \<open>client.audio.transcriptions.create\<close> and \<open>chain\<close> for \<open>chain.invoke\<close>, each with all
  that the library does inside the call (building the request, its own retries, reading
  the answer). Each takes its arguments and the state \<open>'w\<close> of the outside world and
  returns an exception or a result, with the world after the call; so the number and
  the order of the calls this code makes can be read off the world.
\<close>

type_synonym bytes = "8 word list"

definition WHISPER_MODEL :: pstr where
  "WHISPER_MODEL = lit ''whisper-large-v3-turbo''"

definition CLAUDE_MODEL :: pstr where
  "CLAUDE_MODEL = lit ''claude-sonnet-4-20250514''"

record stt_request =
  stt_api_key :: pstr
  stt_file :: "pstr \<times> bytes"
  stt_model :: pstr
  stt_temperature :: int
  stt_response_format :: pstr

text \<open>
  The response object: the code reads its attribute \<open>text\<close>. Whatever else a verbose
  response carries is the extension of the record.
\<close>

record stt_response =
  resp_text :: pstr

record segment =
  seg_start_ms :: nat
  seg_end_ms :: nat
  seg_text :: pstr

record verbose_response = stt_response +
  resp_language :: pstr
  resp_segments :: "segment list"

definition transcribe_audio ::
  "(stt_request \<Rightarrow> 'w \<Rightarrow> (exn + 'm stt_response_scheme) \<times> 'w)
    \<Rightarrow> bytes \<Rightarrow> pstr \<Rightarrow> pstr \<Rightarrow> 'w \<Rightarrow> (exn + pstr) \<times> 'w" where
  "transcribe_audio groq audio_bytes filename groq_api_key w =
    (let (r, w') = groq \<lparr>stt_api_key = groq_api_key,
                          stt_file = (filename, audio_bytes),
                          stt_model = WHISPER_MODEL,
                          stt_temperature = 0,
                          stt_response_format = lit ''verbose_json''\<rparr> w
     in case r of
          Inl e \<Rightarrow> (Inl e, w')
        | Inr transcription \<Rightarrow> (Inr (resp_text transcription), w'))"

text \<open>
  The prompt texts are long literals of core.py (\<open>SYSTEM_PROMPT\<close>, and the parts of
  \<open>HUMAN_PROMPT_TEMPLATE\<close> before and after the placeholder \<open>{transcription}\<close>) that no
  property below reads; they are a parameter.
\<close>

record prompts =
  SYSTEM_PROMPT :: pstr
  HUMAN_PROMPT_BEFORE :: pstr
  HUMAN_PROMPT_AFTER :: pstr

record gen_request =
  gen_api_key :: pstr
  gen_model :: pstr
  gen_temperature :: int
  gen_system :: pstr
  gen_human :: pstr

text \<open>
  \<open>analyze_transcription\<close> builds the chain (the prompt piped into the model with
  structured output) and returns what \<open>chain.invoke\<close> returns, as it is: the function
  neither inspects nor validates the result, whose type \<open>'r\<close> is left open.
\<close>

definition analyze_transcription ::
  "(gen_request \<Rightarrow> 'w \<Rightarrow> (exn + 'r) \<times> 'w) \<Rightarrow> prompts
    \<Rightarrow> pstr \<Rightarrow> pstr \<Rightarrow> 'w \<Rightarrow> (exn + 'r) \<times> 'w" where
  "analyze_transcription chain P transcription anthropic_api_key w =
    (let (r, w') = chain \<lparr>gen_api_key = anthropic_api_key,
                           gen_model = CLAUDE_MODEL,
                           gen_temperature = 0,
                           gen_system = SYSTEM_PROMPT P,
                           gen_human = HUMAN_PROMPT_BEFORE P @ transcription
                                         @ HUMAN_PROMPT_AFTER P\<rparr> w
     in case r of
          Inl e \<Rightarrow> (Inl e, w')
        | Inr result \<Rightarrow> (Inr result, w'))"

definition process_audio ::
  "(stt_request \<Rightarrow> 'w \<Rightarrow> (exn + 'm stt_response_scheme) \<times> 'w)
    \<Rightarrow> (gen_request \<Rightarrow> 'w \<Rightarrow> (exn + 'r) \<times> 'w) \<Rightarrow> prompts
    \<Rightarrow> bytes \<Rightarrow> pstr \<Rightarrow> pstr \<Rightarrow> pstr \<Rightarrow> 'w
    \<Rightarrow> (exn + pstr \<times> 'r) \<times> 'w" where
  "process_audio groq chain P audio_bytes filename groq_api_key anthropic_api_key w =
    (let (r1, w1) = transcribe_audio groq audio_bytes filename groq_api_key w
     in case r1 of
          Inl e \<Rightarrow> (Inl e, w1)
        | Inr transcription \<Rightarrow>
            (let (r2, w2) = analyze_transcription chain P transcription anthropic_api_key w1
             in case r2 of
                  Inl e \<Rightarrow> (Inl e, w2)
                | Inr sumario \<Rightarrow> (Inr (transcription, sumario), w2)))"

section \<open>The conversational session (app\_chat.py)\<close>

record session =
  messages :: "(pstr \<times> pstr) list"
  transcription :: "pstr option"
  sumario_final :: "SumarioPaciente option"

text \<open>The session as the initialisation at the top of the script leaves it.\<close>

definition init_session :: session where
  "init_session = \<lparr>messages = [], transcription = None, sumario_final = None\<rparr>"

text \<open>
  What a run shows or does besides writing the session: \<open>st.success\<close>, \<open>st.warning\<close> and
  \<open>st.error\<close> (each message interpolates the exception \<open>e\<close>, which the event keeps),
  \<open>st.rerun\<close>, and an exception no handler caught. Calls that only draw (markdown,
  placeholders, expanders) are left out.
\<close>

datatype ui = Success | Warning exn | ErrorMsg exn | Rerun | Uncaught exn

definition OPEN_TAG :: pstr where
  "OPEN_TAG = lit ''<sumario_json>''"

definition CLOSE_TAG :: pstr where
  "CLOSE_TAG = lit ''</sumario_json>''"

definition py_index :: "pstr \<Rightarrow> pstr \<Rightarrow> exn + nat" where
  "py_index s sub = (case py_find sub s of None \<Rightarrow> Inl ValueError | Some i \<Rightarrow> Inr i)"

text \<open>
  The body of the \<open>try\<close> up to \<open>json_str\<close>: the two \<open>index\<close> calls, the slice and the strip.
\<close>

definition json_str_of :: "pstr \<Rightarrow> exn + pstr" where
  "json_str_of full_response =
    (case py_index full_response OPEN_TAG of
       Inl e \<Rightarrow> Inl e
     | Inr i \<Rightarrow>
         (let json_start = i + length OPEN_TAG
          in case py_index full_response CLOSE_TAG of
               Inl e \<Rightarrow> Inl e
             | Inr json_end \<Rightarrow> Inr (py_strip (py_slice full_response json_start json_end))))"

text \<open>
  The block after the assistant's answer is saved. \<open>loads\<close> is \<open>json.loads\<close>, a parameter.
  Every exception of the \<open>try\<close> body is caught by \<open>except Exception\<close> and shown as a
  warning; \<open>st.rerun\<close> comes after the record is stored.
\<close>

definition finalizar ::
  "(pstr \<Rightarrow> exn + pyval) \<Rightarrow> pstr \<Rightarrow> session \<Rightarrow> session \<times> ui list" where
  "finalizar loads full_response st =
    (if py_in OPEN_TAG full_response \<and> py_in CLOSE_TAG full_response then
       (case json_str_of full_response of
          Inl e \<Rightarrow> (st, [Warning e])
        | Inr json_str \<Rightarrow>
            (case loads json_str of
               Inl e \<Rightarrow> (st, [Warning e])
             | Inr data \<Rightarrow>
                 (case SumarioPaciente_call data of
                    Inl e \<Rightarrow> (st, [Warning e])
                  | Inr sumario \<Rightarrow>
                      (st\<lparr>sumario_final := Some sumario\<rparr>, [Success, Rerun]))))
     else (st, []))"

record chat_request =
  chat_model :: pstr
  chat_max_tokens :: nat
  chat_system :: pstr
  chat_messages :: "(pstr \<times> pstr) list"

text \<open>
  One chat input. The streaming call returns the text chunks it delivered and, if it
  raised, the exception: the call is outside any \<open>try\<close>, so the run ends there, after the
  user's message was saved. \<open>CHAT_SYSTEM_PROMPT\<close> is a long literal, a parameter here.
\<close>

definition chat_turn ::
  "(chat_request \<Rightarrow> 'w \<Rightarrow> (pstr list \<times> exn option) \<times> 'w) \<Rightarrow> (pstr \<Rightarrow> exn + pyval)
    \<Rightarrow> pstr \<Rightarrow> pstr \<Rightarrow> session \<Rightarrow> 'w \<Rightarrow> (session \<times> ui list) \<times> 'w" where
  "chat_turn stream loads CHAT_SYSTEM_PROMPT prompt st w =
    (let st1 = st\<lparr>messages := messages st @ [(lit ''user'', prompt)]\<rparr>;
         api_messages = map (\<lambda>(role, content). (role, content)) (messages st1);
         ((chunks, failure), w') =
            stream \<lparr>chat_model = CLAUDE_MODEL, chat_max_tokens = 2048,
                    chat_system = CHAT_SYSTEM_PROMPT, chat_messages = api_messages\<rparr> w;
         full_response = foldl (@) [] chunks
     in case failure of
          Some e \<Rightarrow> ((st1, [Uncaught e]), w')
        | None \<Rightarrow>
            (let st2 = st1\<lparr>messages := messages st1 @ [(lit ''assistant'', full_response)]\<rparr>
             in (finalizar loads full_response st2, w')))"

text \<open>The sidebar button that transcribes an uploaded file into the conversation.\<close>

definition TRANSCRIPTION_INTRO :: pstr where
  "TRANSCRIPTION_INTRO =
     lit ''Aqui est'' @ [225] @ lit '' a transcri'' @ [231, 227] @ lit ''o do '' @ [225]
       @ lit ''udio:'' @ [10, 10]"

definition transcrever_audio ::
  "(stt_request \<Rightarrow> 'w \<Rightarrow> (exn + 'm stt_response_scheme) \<times> 'w)
    \<Rightarrow> bytes \<Rightarrow> pstr \<Rightarrow> pstr \<Rightarrow> session \<Rightarrow> 'w \<Rightarrow> (session \<times> ui list) \<times> 'w" where
  "transcrever_audio groq audio_bytes name groq_api_key st w =
    (let (r, w') = transcribe_audio groq audio_bytes name groq_api_key w
     in case r of
          Inl e \<Rightarrow> ((st, [ErrorMsg e]), w')
        | Inr t \<Rightarrow>
            ((st\<lparr>transcription := Some t,
                  messages := messages st @ [(lit ''user'', TRANSCRIPTION_INTRO @ t)]\<rparr>,
              [Success, Rerun]), w'))"

text \<open>The button "Limpar Conversa".\<close>

definition limpar_conversa :: "session \<Rightarrow> session \<times> ui list" where
  "limpar_conversa st =
     (st\<lparr>messages := [], transcription := None, sumario_final := None\<rparr>, [Rerun])"

section \<open>Field names and sample collaborators\<close>

text \<open>The declared fields of the model, and those of type \<open>list[str]\<close>.\<close>

definition REQUIRED_FIELDS :: "pstr list" where
  "REQUIRED_FIELDS =
     [lit ''leito'', lit ''nome_paciente'', lit ''diagnosticos'', lit ''pendencias'',
      lit ''condutas'']"

definition LIST_FIELDS :: "pstr list" where
  "LIST_FIELDS = [lit ''diagnosticos'', lit ''pendencias'', lit ''condutas'']"

fun is_str :: "pyval \<Rightarrow> bool" where
  "is_str (PStr s) = True"
| "is_str v = False"

fun is_str_list :: "pyval \<Rightarrow> bool" where
  "is_str_list (PList vs) = list_all is_str vs"
| "is_str_list v = False"

text \<open>Whether a value has the declared type of the field \<open>name\<close>.\<close>

definition field_fits :: "pstr \<Rightarrow> pyval \<Rightarrow> bool" where
  "field_fits name v = (if name \<in> set LIST_FIELDS then is_str_list v else is_str v)"

text \<open>
  Scripted client calls for the examples. Their world is the log of the calls made so
  far.
\<close>

definition CONNECTION_ERROR :: exn where
  "CONNECTION_ERROR = External (lit ''APIConnectionError'') (lit ''Connection error.'')"

definition sample_response :: verbose_response where
  "sample_response =
     \<lparr>resp_text = lit ''Leito 3, Ana'',
      resp_language = lit ''pt'',
      resp_segments = [\<lparr>seg_start_ms = 0, seg_end_ms = 1800, seg_text = lit ''Leito 3,''\<rparr>,
                       \<lparr>seg_start_ms = 1800, seg_end_ms = 2500, seg_text = lit '' Ana''\<rparr>]\<rparr>"

definition groq_up ::
  "stt_request \<Rightarrow> string list \<Rightarrow> (exn + verbose_response) \<times> string list" where
  "groq_up req log = (Inr sample_response, log @ [''groq''])"

definition groq_down ::
  "stt_request \<Rightarrow> string list \<Rightarrow> (exn + verbose_response) \<times> string list" where
  "groq_down req log = (Inl CONNECTION_ERROR, log @ [''groq''])"

text \<open>A client call that raises the first time it is made and answers from then on.\<close>

definition groq_flaky ::
  "stt_request \<Rightarrow> string list \<Rightarrow> (exn + verbose_response) \<times> string list" where
  "groq_flaky req log =
     (if log = [] then Inl CONNECTION_ERROR else Inr sample_response, log @ [''groq''])"

definition sample_args :: "(pstr \<times> pyval) list" where
  "sample_args =
     [(lit ''leito'', PStr (lit ''3'')),
      (lit ''nome_paciente'', PStr (lit ''Ana'')),
      (lit ''diagnosticos'', PList [PStr (lit ''IRA''), PStr (lit ''Sepse'')]),
      (lit ''pendencias'', PList [PStr (lit ''TC'')]),
      (lit ''condutas'', PList [PStr (lit ''Manter VM'')])]"

definition sample_sumario :: SumarioPaciente where
  "sample_sumario =
     \<lparr>leito = lit ''3'', nome_paciente = lit ''Ana'',
      diagnosticos = [lit ''IRA'', lit ''Sepse''], pendencias = [lit ''TC''],
      condutas = [lit ''Manter VM'']\<rparr>"

text \<open>A record with eleven diagnoses and no pending item or action.\<close>

definition sample_long :: SumarioPaciente where
  "sample_long =
     \<lparr>leito = lit ''7'', nome_paciente = lit ''B'',
      diagnosticos = [lit ''a'', lit ''b'', lit ''c'', lit ''d'', lit ''e'', lit ''f'', lit ''g'',
                      lit ''h'', lit ''i'', lit ''j'', lit ''k''],
      pendencias = [], condutas = []\<rparr>"

definition claude_up ::
  "gen_request \<Rightarrow> string list \<Rightarrow> (exn + SumarioPaciente) \<times> string list" where
  "claude_up req log = (Inr sample_sumario, log @ [''claude''])"

definition claude_down ::
  "gen_request \<Rightarrow> string list \<Rightarrow> (exn + SumarioPaciente) \<times> string list" where
  "claude_down req log = (Inl CONNECTION_ERROR, log @ [''claude''])"

text \<open>Raises the first time it is made and answers from then on.\<close>

definition claude_flaky ::
  "gen_request \<Rightarrow> string list \<Rightarrow> (exn + SumarioPaciente) \<times> string list" where
  "claude_flaky req log =
     (if log = [] then Inl CONNECTION_ERROR else Inr sample_sumario, log @ [''claude''])"

definition sample_prompts :: prompts where
  "sample_prompts =
     \<lparr>SYSTEM_PROMPT = lit ''S'', HUMAN_PROMPT_BEFORE = lit ''B:'', HUMAN_PROMPT_AFTER = lit '':A''\<rparr>"

text \<open>
  \<open>json.loads\<close> on the three texts the examples use: an object that fits the schema, an
  object that does not, an array. Every other text, the empty one among them, is
  answered with JSONDecodeError here.
\<close>

definition sample_json :: pstr where
  \<open>sample_json =
     lit ''{"leito":"3","nome_paciente":"Ana","diagnosticos":["IRA","Sepse"],''
     @ lit ''"pendencias":["TC"],"condutas":["Manter VM"]}''\<close>

definition loads_sample :: "pstr \<Rightarrow> exn + pyval" where
  "loads_sample s =
     (if s = sample_json then Inr (PDict sample_args)
      else if s = lit ''{}'' then Inr (PDict [])
      else if s = lit ''[1]'' then Inr (PList [PInt 1])
      else Inl (JSONDecodeError (lit ''Expecting value'')))"

text \<open>
  Assistant answers: one that carries the sample object between the tags, one without
  tags, one whose block is not JSON, one whose block is an object that does not fit the
  schema, one whose block is an array, and one with the closing tag first.
\<close>

definition answer_final :: pstr where
  "answer_final = lit ''Pronto:'' @ [10] @ OPEN_TAG @ [10] @ sample_json @ [10] @ CLOSE_TAG"

definition answer_question :: pstr where
  "answer_question = lit ''Qual o leito?''"

definition answer_broken :: pstr where
  "answer_broken = OPEN_TAG @ lit ''leito 3'' @ CLOSE_TAG"

definition answer_offschema :: pstr where
  "answer_offschema = OPEN_TAG @ lit '' {} '' @ CLOSE_TAG @ lit '' ok?''"

definition answer_array :: pstr where
  "answer_array = OPEN_TAG @ lit ''[1]'' @ CLOSE_TAG"

definition answer_reversed :: pstr where
  "answer_reversed = CLOSE_TAG @ lit '' {} '' @ OPEN_TAG"

text \<open>A streaming service that delivers a fixed answer in two chunks.\<close>

definition stream_of ::
  "pstr \<Rightarrow> pstr \<Rightarrow> chat_request \<Rightarrow> string list \<Rightarrow> (pstr list \<times> exn option) \<times> string list" where
  "stream_of a b req log = (([a, b], None), log @ [''stream''])"

section \<open>The formatter\<close>

lemma foldl_append_each:
  "foldl (\<lambda>ls x. ls @ [f x]) acc xs = acc @ map f xs"
  by (induction xs arbitrary: acc) simp_all

lemma foldl_append_numbered:
  "foldl (\<lambda>ls (i, x). ls @ [g i x]) acc (List.enumerate n xs)
     = acc @ map (\<lambda>k. g (n + k) (xs ! k)) [0..<length xs]"
proof (induction xs arbitrary: acc n)
  case Nil
  show ?case by simp
next
  case (Cons x xs)
  have "map (\<lambda>k. g (n + k) ((x # xs) ! k)) [0..<length (x # xs)]
          = g n x # map (\<lambda>k. g (Suc n + k) (xs ! k)) [0..<length xs]"
    by (simp add: map_upt_Suc del: upt_Suc)
  with Cons.IH [of "acc @ [g n x]" "Suc n"] show ?case by simp
qed

lemma digits_value_snoc:
  "digits_value acc (xs @ [c]) =
     (case digits_value acc xs of
        None \<Rightarrow> None
      | Some v \<Rightarrow> if 48 \<le> c \<and> c \<le> 57 then Some (10 * v + (c - 48)) else None)"
  by (induction xs arbitrary: acc) simp_all

lemma str_of_nat_nonempty: "str_of_nat n \<noteq> []"
  by (simp add: str_of_nat.simps [of n])

lemma digits_value_str_of_nat: "digits_value 0 (str_of_nat n) = Some n"
proof (induction n rule: str_of_nat.induct)
  case (1 n)
  show ?case
  proof (cases "n < 10")
    case True
    then show ?thesis by (simp add: str_of_nat.simps [of n])
  next
    case False
    with 1 show ?thesis
      by (simp add: str_of_nat.simps [of n] digits_value_snoc)
  qed
qed

lemma hd_str_of_nat: "0 < n \<Longrightarrow> hd (str_of_nat n) \<noteq> 48"
proof (induction n rule: str_of_nat.induct)
  case (1 n)
  show ?case
  proof (cases "n < 10")
    case True
    with 1(2) show ?thesis by (simp add: str_of_nat.simps [of n])
  next
    case False
    then have "0 < n div 10" by simp
    with 1(1) False have "hd (str_of_nat (n div 10)) \<noteq> 48" by simp
    with False show ?thesis
      by (simp add: str_of_nat.simps [of n] str_of_nat_nonempty)
  qed
qed

lemma digits_unique:
  "digits_value 0 s = Some n \<Longrightarrow> s \<noteq> [] \<Longrightarrow> hd s \<noteq> 48 \<Longrightarrow> s = str_of_nat n"
proof (induction s arbitrary: n rule: rev_induct)
  case Nil
  then show ?case by simp
next
  case (snoc c s')
  from snoc.prems(1) obtain m where m: "digits_value 0 s' = Some m"
    and c: "48 \<le> c" "c \<le> 57" and n: "n = 10 * m + (c - 48)"
    by (auto simp: digits_value_snoc split: option.splits if_splits)
  show ?case
  proof (cases "s' = []")
    case True
    with m have "m = 0" by simp
    with n c have "n < 10" and "48 + n = c" by simp_all
    with True show ?thesis by (simp add: str_of_nat.simps [of n])
  next
    case False
    with snoc.prems(3) have h: "hd s' \<noteq> 48" by simp
    from snoc.IH [OF m False h] have s': "s' = str_of_nat m" .
    have "m \<noteq> 0"
    proof
      assume "m = 0"
      with s' have "s' = [48]" by (simp add: str_of_nat.simps [of 0])
      with h show False by simp
    qed
    moreover define d where "d = c - 48"
    moreover have "c = 48 + d" and "d < 10" using c by (simp_all add: d_def)
    ultimately have "\<not> n < 10" and "n div 10 = m" and "48 + n mod 10 = c"
      using n by simp_all
    with s' show ?thesis by (simp add: str_of_nat.simps [of n])
  qed
qed

lemma str_of_nat_characterised:
  "(nat_of_digits s = Some (Suc k) \<and> hd s \<noteq> 48) = (s = str_of_nat (Suc k))"
proof
  assume "nat_of_digits s = Some (Suc k) \<and> hd s \<noteq> 48"
  then have "digits_value 0 s = Some (Suc k)" and "s \<noteq> []" and "hd s \<noteq> 48"
    by (auto simp: nat_of_digits_def split: if_splits)
  then show "s = str_of_nat (Suc k)" by (rule digits_unique)
next
  assume "s = str_of_nat (Suc k)"
  then show "nat_of_digits s = Some (Suc k) \<and> hd s \<noteq> 48"
    by (simp add: nat_of_digits_def str_of_nat_nonempty digits_value_str_of_nat hd_str_of_nat)
qed

text \<open>
  C2. For every record the formatter returns the newline-join (code point 10) of exactly
  these lines, in this order, each written out below by its code points: the header
  "Leito ", the bed, " - ", the name; an empty line; the diagnoses header (the word
  for diagnoses and a colon; 243 is o with acute accent) and the diagnoses, entry k
  (from 0) prefixed by the numeral of k+1 and "- "; an empty line; the pending header
  (234 is e with circumflex) and the pending items numbered the same way; an empty
  line; the header "Condutas:" and the care actions, each prefixed by the bullet
  U+2022 and a space, with no number. The numeral of k+1 is its decimal numeral: the one
  text made of the digits 0 to 9 only, not starting with 0, whose value is k+1. The
  fields are inserted as they are (a field that holds a newline spreads over several
  lines of the output). The result is a function of the record alone.
\<close>

theorem formatar_layout:
  "formatar self =
     join [10]
       ([[76, 101, 105, 116, 111, 32] @ leito self @ [32, 45, 32] @ nome_paciente self, []]
        @ [[68, 105, 97, 103, 110, 243, 115, 116, 105, 99, 111, 115, 58]]
        @ map (\<lambda>k. str_of_nat (Suc k) @ [45, 32] @ diagnosticos self ! k)
            [0..<length (diagnosticos self)]
        @ [[]]
        @ [[80, 101, 110, 100, 234, 110, 99, 105, 97, 115, 58]]
        @ map (\<lambda>k. str_of_nat (Suc k) @ [45, 32] @ pendencias self ! k)
            [0..<length (pendencias self)]
        @ [[]]
        @ [[67, 111, 110, 100, 117, 116, 97, 115, 58]]
        @ map (\<lambda>c. [8226, 32] @ c) (condutas self))
   \<and> (\<forall>k s. (nat_of_digits s = Some (Suc k) \<and> hd s \<noteq> 48) = (s = str_of_nat (Suc k)))"
proof (intro conjI allI)
  show "formatar self =
     join [10]
       ([[76, 101, 105, 116, 111, 32] @ leito self @ [32, 45, 32] @ nome_paciente self, []]
        @ [[68, 105, 97, 103, 110, 243, 115, 116, 105, 99, 111, 115, 58]]
        @ map (\<lambda>k. str_of_nat (Suc k) @ [45, 32] @ diagnosticos self ! k)
            [0..<length (diagnosticos self)]
        @ [[]]
        @ [[80, 101, 110, 100, 234, 110, 99, 105, 97, 115, 58]]
        @ map (\<lambda>k. str_of_nat (Suc k) @ [45, 32] @ pendencias self ! k)
            [0..<length (pendencias self)]
        @ [[]]
        @ [[67, 111, 110, 100, 117, 116, 97, 115, 58]]
        @ map (\<lambda>c. [8226, 32] @ c) (condutas self))"
    by (simp add: formatar_def formatar_linhas_def Let_def foldl_append_each
        foldl_append_numbered HDR_DIAGNOSTICOS_def HDR_PENDENCIAS_def HDR_CONDUTAS_def
        BULLET_def lit_def)
next
  fix k s
  show "(nat_of_digits s = Some (Suc k) \<and> hd s \<noteq> 48) = (s = str_of_nat (Suc k))"
    by (rule str_of_nat_characterised)
qed

text \<open>
  Two records written out: the sample record, and one with eleven diagnoses (entries
  10 and 11 take two digits) and empty lists of pending items and actions.
\<close>

theorem formatar_layout_witness:
  "formatar sample_sumario =
     [76, 101, 105, 116, 111, 32, 51, 32, 45, 32, 65, 110, 97, 10, 10, 68, 105, 97, 103,
      110, 243, 115, 116, 105, 99, 111, 115, 58, 10, 49, 45, 32, 73, 82, 65, 10, 50, 45,
      32, 83, 101, 112, 115, 101, 10, 10, 80, 101, 110, 100, 234, 110, 99, 105, 97, 115,
      58, 10, 49, 45, 32, 84, 67, 10, 10, 67, 111, 110, 100, 117, 116, 97, 115, 58, 10,
      8226, 32, 77, 97, 110, 116, 101, 114, 32, 86, 77]
   \<and> formatar sample_long =
     [76, 101, 105, 116, 111, 32, 55, 32, 45, 32, 66, 10, 10, 68, 105, 97, 103, 110,
      243, 115, 116, 105, 99, 111, 115, 58, 10, 49, 45, 32, 97, 10, 50, 45, 32, 98, 10,
      51, 45, 32, 99, 10, 52, 45, 32, 100, 10, 53, 45, 32, 101, 10, 54, 45, 32, 102, 10,
      55, 45, 32, 103, 10, 56, 45, 32, 104, 10, 57, 45, 32, 105, 10, 49, 48, 45, 32,
      106, 10, 49, 49, 45, 32, 107, 10, 10, 80, 101, 110, 100, 234, 110, 99, 105, 97,
      115, 58, 10, 10, 67, 111, 110, 100, 117, 116, 97, 115, 58]"
proof (intro conjI)
  from formatar_layout [THEN conjunct1, of sample_sumario]
  show "formatar sample_sumario =
     [76, 101, 105, 116, 111, 32, 51, 32, 45, 32, 65, 110, 97, 10, 10, 68, 105, 97, 103,
      110, 243, 115, 116, 105, 99, 111, 115, 58, 10, 49, 45, 32, 73, 82, 65, 10, 50, 45,
      32, 83, 101, 112, 115, 101, 10, 10, 80, 101, 110, 100, 234, 110, 99, 105, 97, 115,
      58, 10, 49, 45, 32, 84, 67, 10, 10, 67, 111, 110, 100, 117, 116, 97, 115, 58, 10,
      8226, 32, 77, 97, 110, 116, 101, 114, 32, 86, 77]"
    by (simp add: sample_sumario_def str_of_nat.simps lit_def upt_rec)
next
  from formatar_layout [THEN conjunct1, of sample_long]
  show "formatar sample_long =
     [76, 101, 105, 116, 111, 32, 55, 32, 45, 32, 66, 10, 10, 68, 105, 97, 103, 110,
      243, 115, 116, 105, 99, 111, 115, 58, 10, 49, 45, 32, 97, 10, 50, 45, 32, 98, 10,
      51, 45, 32, 99, 10, 52, 45, 32, 100, 10, 53, 45, 32, 101, 10, 54, 45, 32, 102, 10,
      55, 45, 32, 103, 10, 56, 45, 32, 104, 10, 57, 45, 32, 105, 10, 49, 48, 45, 32,
      106, 10, 49, 49, 45, 32, 107, 10, 10, 80, 101, 110, 100, 234, 110, 99, 105, 97,
      115, 58, 10, 10, 67, 111, 110, 100, 117, 116, 97, 115, 58]"
    by (simp add: sample_long_def str_of_nat.simps lit_def upt_rec)
qed

section \<open>Building the record: what is accepted and what is rejected\<close>

lemma str_field_Inr_iff: "str_field name v = Inr s \<longleftrightarrow> v = Some (PStr s)"
  by (cases "(name, v)" rule: str_field.cases) auto

lemma str_field_Inl_errors:
  "str_field name v = Inl es \<Longrightarrow> es = [Missing name] \<and> v = None \<or> es = [StringType name] \<and> v \<noteq> None"
  by (cases "(name, v)" rule: str_field.cases) auto

lemma str_items_clean_iff: "str_items name k vs = ([], ss) \<longleftrightarrow> vs = map PStr ss"
proof (induction vs arbitrary: k ss)
  case Nil
  show ?case by auto
next
  case (Cons v vs)
  obtain es ss' where rec: "str_items name (Suc k) vs = (es, ss')"
    by (cases "str_items name (Suc k) vs")
  have ih: "(vs = map PStr t) = (es = [] \<and> ss' = t)" for t
    using Cons.IH [of "Suc k" t] rec by simp
  show ?case
  proof (cases v)
    case (PStr s)
    have "(str_items name k (v # vs) = ([], ss)) = (es = [] \<and> ss = s # ss')"
      using rec PStr by auto
    also have "\<dots> = (v # vs = map PStr ss)"
    proof (cases ss)
      case Nil
      then show ?thesis by simp
    next
      case (Cons a t)
      then show ?thesis using PStr ih [of t] by auto
    qed
    finally show ?thesis .
  next
    case PNone
    then show ?thesis using rec by (cases ss) simp_all
  next
    case (PBool b)
    then show ?thesis using rec by (cases ss) simp_all
  next
    case (PInt n)
    then show ?thesis using rec by (cases ss) simp_all
  next
    case (PFloat m e)
    then show ?thesis using rec by (cases ss) simp_all
  next
    case (PList l)
    then show ?thesis using rec by (cases ss) simp_all
  next
    case (PDict d)
    then show ?thesis using rec by (cases ss) simp_all
  qed
qed

lemma str_items_flags_item:
  "i < length vs \<Longrightarrow> \<not> is_str (vs ! i) \<Longrightarrow> ItemStringType name (k + i) \<in> set (fst (str_items name k vs))"
proof (induction vs arbitrary: k i)
  case Nil
  then show ?case by simp
next
  case (Cons v vs)
  show ?case
  proof (cases i)
    case 0
    with Cons.prems show ?thesis by (cases v) (auto split: prod.splits)
  next
    case (Suc j)
    with Cons.prems Cons.IH [of j "Suc k"] show ?thesis
      by (cases v) (auto split: prod.splits)
  qed
qed

lemma list_field_Inr_iff: "list_field name v = Inr ss \<longleftrightarrow> v = Some (PList (map PStr ss))"
proof (cases v)
  case None
  then show ?thesis by simp
next
  case (Some x)
  show ?thesis
  proof (cases x)
    case (PList vs)
    obtain es ss' where r: "str_items name 0 vs = (es, ss')"
      by (cases "str_items name 0 vs")
    show ?thesis
    proof (cases "es = []")
      case True
      with r str_items_clean_iff [of name 0 vs ss'] have "vs = map PStr ss'" by simp
      moreover have "inj PStr" by (simp add: inj_def)
      ultimately show ?thesis
        using Some PList r True by (auto dest: inj_mapD simp: inj_map_eq_map)
    next
      case False
      with r str_items_clean_iff [of name 0 vs ss] have "vs \<noteq> map PStr ss" by auto
      with Some PList r False show ?thesis by simp
    qed
  qed (use Some in simp_all)
qed

lemma list_field_flags_item:
  assumes "i < length vs" and "\<not> is_str (vs ! i)"
  shows "\<exists>es. list_field name (Some (PList vs)) = Inl es \<and> ItemStringType name i \<in> set es"
proof -
  obtain es ss where r: "str_items name 0 vs = (es, ss)"
    by (cases "str_items name 0 vs")
  from str_items_flags_item [OF assms, of name 0] r have "ItemStringType name i \<in> set es"
    by simp
  moreover from this have "es \<noteq> []" by auto
  ultimately show ?thesis using r by simp
qed

lemma is_str_iff: "is_str v \<longleftrightarrow> (\<exists>s. v = PStr s)"
  by (cases v) simp_all

lemma list_all_is_str_iff: "list_all is_str vs \<longleftrightarrow> (\<exists>ss. vs = map PStr ss)"
proof (induction vs)
  case Nil
  show ?case by simp
next
  case (Cons a vs)
  show ?case
  proof
    assume h: "list_all is_str (a # vs)"
    then have "is_str a" and "list_all is_str vs" by simp_all
    with Cons obtain ss where "vs = map PStr ss" by auto
    moreover from \<open>is_str a\<close> obtain s where "a = PStr s"
      using is_str_iff [of a] by auto
    ultimately have "a # vs = map PStr (s # ss)" by simp
    then show "\<exists>ss. a # vs = map PStr ss" by (rule exI)
  next
    assume "\<exists>ss. a # vs = map PStr ss"
    then obtain ss where e: "a # vs = map PStr ss" by (elim exE)
    then obtain s t where "ss = s # t" by (cases ss) auto
    with e have "a = PStr s" "vs = map PStr t" by auto
    with Cons show "list_all is_str (a # vs)" by auto
  qed
qed

lemma is_str_list_iff: "is_str_list v \<longleftrightarrow> (\<exists>ss. v = PList (map PStr ss))"
  by (cases v) (simp_all add: list_all_is_str_iff)

lemma five_fields_Inr_iff:
  "(case (l, n, d, p, c) of
      (Inr l', Inr n', Inr d', Inr p', Inr c') \<Rightarrow> Inr (F l' n' d' p' c')
    | _ \<Rightarrow> Inl E) = Inr s
   \<longleftrightarrow> (\<exists>l' n' d' p' c'. l = Inr l' \<and> n = Inr n' \<and> d = Inr d' \<and> p = Inr p' \<and> c = Inr c'
         \<and> s = F l' n' d' p' c')"
  by (cases l; cases n; cases d; cases p; cases c; simp; blast)

lemma five_fields_Inl:
  "l = Inl es \<or> n = Inl es \<or> d = Inl es \<or> p = Inl es \<or> c = Inl es \<Longrightarrow>
   (case (l, n, d, p, c) of
      (Inr l', Inr n', Inr d', Inr p', Inr c') \<Rightarrow> Inr (F l' n' d' p' c')
    | _ \<Rightarrow> Inl E) = Inl E"
  by (cases l; cases n; cases d; cases p; cases c; simp)

lemma init_Inr_iff:
  "SumarioPaciente_init kwargs = Inr s \<longleftrightarrow>
     map_of kwargs (lit ''leito'') = Some (PStr (leito s))
   \<and> map_of kwargs (lit ''nome_paciente'') = Some (PStr (nome_paciente s))
   \<and> map_of kwargs (lit ''diagnosticos'') = Some (PList (map PStr (diagnosticos s)))
   \<and> map_of kwargs (lit ''pendencias'') = Some (PList (map PStr (pendencias s)))
   \<and> map_of kwargs (lit ''condutas'') = Some (PList (map PStr (condutas s)))"
  unfolding SumarioPaciente_init_def Let_def five_fields_Inr_iff
    str_field_Inr_iff list_field_Inr_iff
  by (cases s) auto

lemma init_reports:
  assumes "str_field (lit ''leito'') (map_of kwargs (lit ''leito'')) = Inl es
           \<or> str_field (lit ''nome_paciente'') (map_of kwargs (lit ''nome_paciente'')) = Inl es
           \<or> list_field (lit ''diagnosticos'') (map_of kwargs (lit ''diagnosticos'')) = Inl es
           \<or> list_field (lit ''pendencias'') (map_of kwargs (lit ''pendencias'')) = Inl es
           \<or> list_field (lit ''condutas'') (map_of kwargs (lit ''condutas'')) = Inl es"
  shows "\<exists>all. SumarioPaciente_init kwargs = Inl (ValidationError all) \<and> set es \<subseteq> set all"
proof -
  let ?l = "str_field (lit ''leito'') (map_of kwargs (lit ''leito''))"
  let ?n = "str_field (lit ''nome_paciente'') (map_of kwargs (lit ''nome_paciente''))"
  let ?d = "list_field (lit ''diagnosticos'') (map_of kwargs (lit ''diagnosticos''))"
  let ?p = "list_field (lit ''pendencias'') (map_of kwargs (lit ''pendencias''))"
  let ?c = "list_field (lit ''condutas'') (map_of kwargs (lit ''condutas''))"
  let ?all = "errors_of ?l @ errors_of ?n @ errors_of ?d @ errors_of ?p @ errors_of ?c"
  have "SumarioPaciente_init kwargs = Inl (ValidationError ?all)"
    unfolding SumarioPaciente_init_def Let_def
    by (rule five_fields_Inl) (rule assms)
  moreover have "set es \<subseteq> set ?all"
    using assms by (elim disjE) auto
  ultimately show ?thesis by (intro exI conjI)
qed

lemma required_cases:
  assumes "name \<in> set REQUIRED_FIELDS"
  obtains "name = lit ''leito''" | "name = lit ''nome_paciente''" | "name = lit ''diagnosticos''"
    | "name = lit ''pendencias''" | "name = lit ''condutas''"
  using assms unfolding REQUIRED_FIELDS_def by auto

lemma list_cases:
  assumes "name \<in> set LIST_FIELDS"
  obtains "name = lit ''diagnosticos''" | "name = lit ''pendencias''" | "name = lit ''condutas''"
  using assms unfolding LIST_FIELDS_def by auto

lemma init_missing:
  assumes "name \<in> set REQUIRED_FIELDS" and "map_of kwargs name = None"
  shows "\<exists>es. SumarioPaciente_init kwargs = Inl (ValidationError es) \<and> Missing name \<in> set es"
proof -
  have "\<exists>all. SumarioPaciente_init kwargs = Inl (ValidationError all)
          \<and> set [Missing name] \<subseteq> set all"
    using assms(1)
  proof (cases rule: required_cases)
    case 1
    with assms(2) show ?thesis by (intro init_reports) simp
  next
    case 2
    with assms(2) show ?thesis by (intro init_reports) simp
  next
    case 3
    with assms(2) show ?thesis by (intro init_reports) simp
  next
    case 4
    with assms(2) show ?thesis by (intro init_reports) simp
  next
    case 5
    with assms(2) show ?thesis by (intro init_reports) simp
  qed
  then show ?thesis by auto
qed

lemma init_bad_item:
  assumes "name \<in> set LIST_FIELDS" and "map_of kwargs name = Some (PList vs)"
    and "i < length vs" and "\<not> is_str (vs ! i)"
  shows "\<exists>es. SumarioPaciente_init kwargs = Inl (ValidationError es)
           \<and> ItemStringType name i \<in> set es"
proof -
  from list_field_flags_item [OF assms(3,4), of name]
  obtain es where es: "list_field name (Some (PList vs)) = Inl es"
    and mem: "ItemStringType name i \<in> set es" by auto
  have "\<exists>all. SumarioPaciente_init kwargs = Inl (ValidationError all) \<and> set es \<subseteq> set all"
    using assms(1)
  proof (cases rule: list_cases)
    case 1
    with assms(2) es show ?thesis by (intro init_reports) simp
  next
    case 2
    with assms(2) es show ?thesis by (intro init_reports) simp
  next
    case 3
    with assms(2) es show ?thesis by (intro init_reports) simp
  qed
  with mem show ?thesis by auto
qed

text \<open>
  C3. Building the record from a key-value payload fails with the validation error of
  the schema (pydantic's ValidationError) whenever one of the five declared fields is
  missing, the error naming that field, and whenever a list-typed field holds a list
  with an item that is not a string, the error naming the field and the index. It
  succeeds only on a payload in which all five fields are present, the two text fields
  are strings and the three list fields are lists of strings; the record then holds
  exactly those values.
\<close>

theorem SumarioPaciente_init_rejects:
  "(name \<in> set REQUIRED_FIELDS \<and> map_of kwargs name = None
      \<longrightarrow> (\<exists>es. SumarioPaciente_call (PDict kwargs) = Inl (ValidationError es)
                \<and> Missing name \<in> set es))
   \<and> (name \<in> set LIST_FIELDS \<and> map_of kwargs name = Some (PList vs) \<and> i < length vs
        \<and> \<not> is_str (vs ! i)
      \<longrightarrow> (\<exists>es. SumarioPaciente_call (PDict kwargs) = Inl (ValidationError es)
                \<and> ItemStringType name i \<in> set es))
   \<and> (SumarioPaciente_call (PDict kwargs) = Inr s
      \<longrightarrow> map_of kwargs (lit ''leito'') = Some (PStr (leito s))
          \<and> map_of kwargs (lit ''nome_paciente'') = Some (PStr (nome_paciente s))
          \<and> map_of kwargs (lit ''diagnosticos'') = Some (PList (map PStr (diagnosticos s)))
          \<and> map_of kwargs (lit ''pendencias'') = Some (PList (map PStr (pendencias s)))
          \<and> map_of kwargs (lit ''condutas'') = Some (PList (map PStr (condutas s))))"
  using init_missing [of name kwargs] init_bad_item [of name kwargs vs i]
    init_Inr_iff [of kwargs s]
  by simp

lemma sample_args_ok: "SumarioPaciente_init sample_args = Inr sample_sumario"
  by (simp add: SumarioPaciente_init_def sample_args_def sample_sumario_def lit_def)

theorem SumarioPaciente_init_rejects_witness:
  "(\<exists>es. SumarioPaciente_call (PDict [(lit ''leito'', PStr (lit ''3''))]) = Inl (ValidationError es)
          \<and> Missing (lit ''condutas'') \<in> set es)
   \<and> (\<exists>es. SumarioPaciente_call
              (PDict [(lit ''diagnosticos'', PList [PStr (lit ''IRA''), PInt 7])])
            = Inl (ValidationError es)
          \<and> ItemStringType (lit ''diagnosticos'') 1 \<in> set es)
   \<and> map_of sample_args (lit ''leito'') = Some (PStr (leito sample_sumario))
   \<and> map_of sample_args (lit ''condutas'') = Some (PList (map PStr (condutas sample_sumario)))"
proof (intro conjI)
  have a: "lit ''condutas'' \<in> set REQUIRED_FIELDS
           \<and> map_of [(lit ''leito'', PStr (lit ''3''))] (lit ''condutas'') = None"
    by (simp add: REQUIRED_FIELDS_def lit_def)
  from SumarioPaciente_init_rejects [THEN conjunct1, rule_format, OF a]
  show "\<exists>es. SumarioPaciente_call (PDict [(lit ''leito'', PStr (lit ''3''))])
               = Inl (ValidationError es) \<and> Missing (lit ''condutas'') \<in> set es" .
next
  have b: "lit ''diagnosticos'' \<in> set LIST_FIELDS
           \<and> map_of [(lit ''diagnosticos'', PList [PStr (lit ''IRA''), PInt 7])]
                (lit ''diagnosticos'') = Some (PList [PStr (lit ''IRA''), PInt 7])
           \<and> 1 < length [PStr (lit ''IRA''), PInt 7]
           \<and> \<not> is_str ([PStr (lit ''IRA''), PInt 7] ! 1)"
    by (simp add: LIST_FIELDS_def)
  from SumarioPaciente_init_rejects [THEN conjunct2, THEN conjunct1, rule_format, OF b]
  show "\<exists>es. SumarioPaciente_call
               (PDict [(lit ''diagnosticos'', PList [PStr (lit ''IRA''), PInt 7])])
             = Inl (ValidationError es)
           \<and> ItemStringType (lit ''diagnosticos'') 1 \<in> set es" .
next
  have c: "SumarioPaciente_call (PDict sample_args) = Inr sample_sumario"
    by (simp add: sample_args_ok)
  note r = SumarioPaciente_init_rejects [THEN conjunct2, THEN conjunct2, rule_format, OF c]
  from r show "map_of sample_args (lit ''leito'') = Some (PStr (leito sample_sumario))"
    by (elim conjE)
  from r show "map_of sample_args (lit ''condutas'')
                 = Some (PList (map PStr (condutas sample_sumario)))"
    by (elim conjE)
qed

lemma init_cong:
  assumes "\<And>name. name \<in> set REQUIRED_FIELDS \<Longrightarrow> map_of kw' name = map_of kw name"
  shows "SumarioPaciente_init kw' = SumarioPaciente_init kw"
proof -
  have "map_of kw' (lit ''leito'') = map_of kw (lit ''leito'')"
       "map_of kw' (lit ''nome_paciente'') = map_of kw (lit ''nome_paciente'')"
       "map_of kw' (lit ''diagnosticos'') = map_of kw (lit ''diagnosticos'')"
       "map_of kw' (lit ''pendencias'') = map_of kw (lit ''pendencias'')"
       "map_of kw' (lit ''condutas'') = map_of kw (lit ''condutas'')"
    by (rule assms, simp add: REQUIRED_FIELDS_def)+
  then show ?thesis by (simp only: SumarioPaciente_init_def)
qed

lemma fits_simps:
  "field_fits (lit ''leito'') x = is_str x"
  "field_fits (lit ''nome_paciente'') x = is_str x"
  "field_fits (lit ''diagnosticos'') x = is_str_list x"
  "field_fits (lit ''pendencias'') x = is_str_list x"
  "field_fits (lit ''condutas'') x = is_str_list x"
  by (simp_all add: field_fits_def LIST_FIELDS_def lit_def)

lemma init_accepts_iff:
  "(\<exists>s. SumarioPaciente_init kwargs = Inr s) \<longleftrightarrow>
     (\<forall>name \<in> set REQUIRED_FIELDS. \<exists>x. map_of kwargs name = Some x \<and> field_fits name x)"
proof
  assume "\<exists>s. SumarioPaciente_init kwargs = Inr s"
  then obtain s where "SumarioPaciente_init kwargs = Inr s" by (elim exE)
  then have f: "map_of kwargs (lit ''leito'') = Some (PStr (leito s))"
    "map_of kwargs (lit ''nome_paciente'') = Some (PStr (nome_paciente s))"
    "map_of kwargs (lit ''diagnosticos'') = Some (PList (map PStr (diagnosticos s)))"
    "map_of kwargs (lit ''pendencias'') = Some (PList (map PStr (pendencias s)))"
    "map_of kwargs (lit ''condutas'') = Some (PList (map PStr (condutas s)))"
    by (simp_all add: init_Inr_iff)
  show "\<forall>name \<in> set REQUIRED_FIELDS. \<exists>x. map_of kwargs name = Some x \<and> field_fits name x"
  proof
    fix name assume "name \<in> set REQUIRED_FIELDS"
    then show "\<exists>x. map_of kwargs name = Some x \<and> field_fits name x"
      by (cases rule: required_cases)
         (use f in \<open>auto simp: fits_simps is_str_list_iff\<close>)
  qed
next
  assume a: "\<forall>name \<in> set REQUIRED_FIELDS. \<exists>x. map_of kwargs name = Some x \<and> field_fits name x"
  have m: "lit ''leito'' \<in> set REQUIRED_FIELDS" "lit ''nome_paciente'' \<in> set REQUIRED_FIELDS"
    "lit ''diagnosticos'' \<in> set REQUIRED_FIELDS" "lit ''pendencias'' \<in> set REQUIRED_FIELDS"
    "lit ''condutas'' \<in> set REQUIRED_FIELDS"
    by (simp_all add: REQUIRED_FIELDS_def)
  have ex: "\<exists>x. map_of kwargs name = Some x \<and> field_fits name x"
    if "name \<in> set REQUIRED_FIELDS" for name
    using a that by (rule bspec)
  have "\<exists>l. map_of kwargs (lit ''leito'') = Some (PStr l)"
    using ex [OF m(1)] by (auto simp: fits_simps is_str_iff)
  then obtain l where l: "map_of kwargs (lit ''leito'') = Some (PStr l)" by (elim exE)
  have "\<exists>n. map_of kwargs (lit ''nome_paciente'') = Some (PStr n)"
    using ex [OF m(2)] by (auto simp: fits_simps is_str_iff)
  then obtain n where n: "map_of kwargs (lit ''nome_paciente'') = Some (PStr n)" by (elim exE)
  have "\<exists>d. map_of kwargs (lit ''diagnosticos'') = Some (PList (map PStr d))"
    using ex [OF m(3)] by (auto simp: fits_simps is_str_list_iff)
  then obtain d where d: "map_of kwargs (lit ''diagnosticos'') = Some (PList (map PStr d))"
    by (elim exE)
  have "\<exists>p. map_of kwargs (lit ''pendencias'') = Some (PList (map PStr p))"
    using ex [OF m(4)] by (auto simp: fits_simps is_str_list_iff)
  then obtain p where p: "map_of kwargs (lit ''pendencias'') = Some (PList (map PStr p))"
    by (elim exE)
  have "\<exists>c. map_of kwargs (lit ''condutas'') = Some (PList (map PStr c))"
    using ex [OF m(5)] by (auto simp: fits_simps is_str_list_iff)
  then obtain c where c: "map_of kwargs (lit ''condutas'') = Some (PList (map PStr c))"
    by (elim exE)
  have "SumarioPaciente_init kwargs
          = Inr \<lparr>leito = l, nome_paciente = n, diagnosticos = d, pendencias = p, condutas = c\<rparr>"
    using l n d p c by (simp add: init_Inr_iff)
  then show "\<exists>s. SumarioPaciente_init kwargs = Inr s" by (rule exI)
qed

text \<open>
  C10. A key that names none of the five fields is ignored: adding it to a payload, at
  either end, changes neither the record built nor the error raised. A payload is
  rejected exactly when one of the five fields is missing or holds a value that does
  not have the declared type.
\<close>

theorem SumarioPaciente_init_ignores_extra_keys:
  "(k \<notin> set REQUIRED_FIELDS
      \<longrightarrow> SumarioPaciente_call (PDict (kwargs @ [(k, v)])) = SumarioPaciente_call (PDict kwargs)
          \<and> SumarioPaciente_call (PDict ((k, v) # kwargs)) = SumarioPaciente_call (PDict kwargs))
   \<and> ((\<exists>e. SumarioPaciente_call (PDict kwargs) = Inl e)
        \<longleftrightarrow> (\<exists>name \<in> set REQUIRED_FIELDS.
               case map_of kwargs name of None \<Rightarrow> True | Some x \<Rightarrow> \<not> field_fits name x))"
proof (intro conjI impI)
  assume k: "k \<notin> set REQUIRED_FIELDS"
  show "SumarioPaciente_call (PDict (kwargs @ [(k, v)])) = SumarioPaciente_call (PDict kwargs)"
    using k by (auto intro!: init_cong simp: map_add_def split: option.splits)
  show "SumarioPaciente_call (PDict ((k, v) # kwargs)) = SumarioPaciente_call (PDict kwargs)"
    using k by (auto intro!: init_cong)
next
  have "(\<exists>e. SumarioPaciente_init kwargs = Inl e) \<longleftrightarrow> \<not> (\<exists>s. SumarioPaciente_init kwargs = Inr s)"
    by (cases "SumarioPaciente_init kwargs") simp_all
  also have "\<dots> \<longleftrightarrow> (\<exists>name \<in> set REQUIRED_FIELDS.
               case map_of kwargs name of None \<Rightarrow> True | Some x \<Rightarrow> \<not> field_fits name x)"
    unfolding init_accepts_iff by (auto split: option.splits)
  finally show "(\<exists>e. SumarioPaciente_call (PDict kwargs) = Inl e)
        \<longleftrightarrow> (\<exists>name \<in> set REQUIRED_FIELDS.
               case map_of kwargs name of None \<Rightarrow> True | Some x \<Rightarrow> \<not> field_fits name x)"
    by simp
qed

theorem SumarioPaciente_init_ignores_extra_keys_witness:
  "SumarioPaciente_call (PDict (sample_args @ [(lit ''observacao'', PInt 7)])) = Inr sample_sumario
   \<and> SumarioPaciente_call (PDict ((lit ''observacao'', PInt 7) # sample_args)) = Inr sample_sumario"
proof -
  have k: "lit ''observacao'' \<notin> set REQUIRED_FIELDS"
    by (simp add: REQUIRED_FIELDS_def lit_def)
  have c: "SumarioPaciente_call (PDict sample_args) = Inr sample_sumario"
    by (simp add: sample_args_ok)
  from SumarioPaciente_init_ignores_extra_keys [THEN conjunct1, rule_format, OF k,
      of sample_args "PInt 7"] c
  show ?thesis by simp
qed

section \<open>The finalization block of the chat\<close>

lemma py_find_lowest:
  "py_find sub s = Some i \<Longrightarrow>
     i \<le> length s \<and> prefix sub (drop i s) \<and> (\<forall>j<i. \<not> prefix sub (drop j s))"
proof (induction s arbitrary: i)
  case Nil
  then show ?case by (simp split: if_splits)
next
  case (Cons c cs)
  show ?case
  proof (cases "prefix sub (c # cs)")
    case True
    with Cons.prems show ?thesis by simp
  next
    case False
    with Cons.prems obtain k where k: "py_find sub cs = Some k" and i: "i = Suc k"
      by auto
    from Cons.IH [OF k] have ih: "k \<le> length cs" "prefix sub (drop k cs)"
      "\<forall>j<k. \<not> prefix sub (drop j cs)" by simp_all
    have "\<not> prefix sub (drop j (c # cs))" if "j < i" for j
    proof (cases j)
      case 0
      with False show ?thesis by simp
    next
      case (Suc m)
      with that i ih(3) show ?thesis by simp
    qed
    with ih i show ?thesis by simp
  qed
qed

lemma py_find_None:
  "py_find sub s = None \<Longrightarrow> j \<le> length s \<Longrightarrow> \<not> prefix sub (drop j s)"
proof (induction s arbitrary: j)
  case Nil
  then show ?case by (simp split: if_splits)
next
  case (Cons c cs)
  from Cons.prems(1) have np: "\<not> prefix sub (c # cs)" and n: "py_find sub cs = None"
    by (auto split: if_splits)
  show ?case
  proof (cases j)
    case 0
    with np show ?thesis by simp
  next
    case (Suc m)
    with Cons.prems(2) Cons.IH [OF n, of m] show ?thesis by simp
  qed
qed

lemma py_in_iff: "py_in sub s \<longleftrightarrow> (\<exists>i. py_find sub s = Some i)"
  by (simp add: py_in_def)

lemma length_OPEN_TAG: "length OPEN_TAG = 14"
  by (simp add: OPEN_TAG_def lit_def)

lemma json_str_of_found:
  "py_find OPEN_TAG r = Some i \<Longrightarrow> py_find CLOSE_TAG r = Some j
     \<Longrightarrow> json_str_of r = Inr (py_strip (py_slice r (i + 14) j))"
  by (simp add: json_str_of_def py_index_def length_OPEN_TAG)

lemma finalizar_found:
  "py_find OPEN_TAG r = Some i \<Longrightarrow> py_find CLOSE_TAG r = Some j \<Longrightarrow>
   finalizar loads r st =
     (case loads (py_strip (py_slice r (i + 14) j)) of
        Inl e \<Rightarrow> (st, [Warning e])
      | Inr data \<Rightarrow>
          (case SumarioPaciente_call data of
             Inl e \<Rightarrow> (st, [Warning e])
           | Inr s \<Rightarrow> (st\<lparr>sumario_final := Some s\<rparr>, [Success, Rerun])))"
  by (simp add: finalizar_def py_in_def json_str_of_found)

lemma py_slice_between:
  "py_slice (pre @ tag @ mid @ rest) (length pre + length tag) (length pre + length tag + length mid)
     = mid"
  by (simp add: py_slice_def)

lemma finalizar_history:
  "snd (finalizar loads r (st\<lparr>messages := ms\<rparr>)) = snd (finalizar loads r st)
   \<and> fst (finalizar loads r (st\<lparr>messages := ms\<rparr>)) = (fst (finalizar loads r st))\<lparr>messages := ms\<rparr>"
  by (simp add: finalizar_def split: sum.splits)

lemma OPEN_TAG_codes: "OPEN_TAG = [60, 115, 117, 109, 97, 114, 105, 111, 95, 106, 115, 111, 110, 62]"
  by (simp add: OPEN_TAG_def lit_def)

lemma CLOSE_TAG_codes:
  "CLOSE_TAG = [60, 47, 115, 117, 109, 97, 114, 105, 111, 95, 106, 115, 111, 110, 62]"
  by (simp add: CLOSE_TAG_def lit_def)

lemma answer_final_json: "json_str_of answer_final = Inr sample_json"
  by (simp add: json_str_of_def py_index_def answer_final_def OPEN_TAG_codes CLOSE_TAG_codes
      sample_json_def lit_def py_slice_def py_strip_def py_isspace_def)

lemma answer_final_in: "py_in OPEN_TAG answer_final \<and> py_in CLOSE_TAG answer_final"
  by (simp add: py_in_def answer_final_def OPEN_TAG_codes CLOSE_TAG_codes
      sample_json_def lit_def)

lemma answer_question_in: "\<not> py_in OPEN_TAG answer_question"
  by (simp add: py_in_def answer_question_def OPEN_TAG_codes lit_def)

lemma answer_reversed_find:
  "py_find OPEN_TAG answer_reversed = Some 19 \<and> py_find CLOSE_TAG answer_reversed = Some 0"
  by (simp add: answer_reversed_def OPEN_TAG_codes CLOSE_TAG_codes lit_def)

lemma answer_offschema_json: "json_str_of answer_offschema = Inr (lit ''{}'')"
  by (simp add: json_str_of_def py_index_def answer_offschema_def OPEN_TAG_codes CLOSE_TAG_codes
      lit_def py_slice_def py_strip_def py_isspace_def)

lemma loads_sample_json: "loads_sample sample_json = Inr (PDict sample_args)"
  by (simp add: loads_sample_def)

lemma loads_sample_empty: "loads_sample [] = Inl (JSONDecodeError (lit ''Expecting value''))"
  by (simp add: loads_sample_def sample_json_def lit_def)

lemma loads_sample_obj: "loads_sample (lit ''{}'') = Inr (PDict [])"
  by (simp add: loads_sample_def sample_json_def lit_def)

text \<open>
  C9. The block after an assistant answer does nothing unless the answer contains both
  tags. When it contains both, the text given to \<open>json.loads\<close> is the stripped slice from
  the end of the first opening tag (its index plus 14) to the start of the first
  closing tag, so for an answer \<open>pre <sumario_json> mid </sumario_json> post\<close> whose first
  tags are these it is \<open>mid\<close> stripped, whatever \<open>pre\<close> and \<open>post\<close> are. The outcome is
  decided by that text alone: the conversation history (what the user said, whether a
  confirmation was given) is not read, only carried along. When the first closing tag
  comes before the first opening tag the slice is empty, and, \<open>json.loads\<close> raising on
  the empty text, the block stores nothing and shows a warning. The two indices are
  those of the first occurrences: the tag starts there and at no smaller index.
\<close>

theorem finalizar_trigger_and_payload:
  "(\<not> (py_in OPEN_TAG r \<and> py_in CLOSE_TAG r) \<longrightarrow> finalizar loads r st = (st, []))
   \<and> (py_in OPEN_TAG r \<and> py_in CLOSE_TAG r
        \<longrightarrow> (\<exists>i j. py_find OPEN_TAG r = Some i \<and> py_find CLOSE_TAG r = Some j))
   \<and> (py_find OPEN_TAG r = Some i \<and> py_find CLOSE_TAG r = Some j
        \<longrightarrow> json_str_of r = Inr (py_strip (py_slice r (i + 14) j))
            \<and> finalizar loads r st =
                (case loads (py_strip (py_slice r (i + 14) j)) of
                   Inl e \<Rightarrow> (st, [Warning e])
                 | Inr data \<Rightarrow>
                     (case SumarioPaciente_call data of
                        Inl e \<Rightarrow> (st, [Warning e])
                      | Inr s \<Rightarrow> (st\<lparr>sumario_final := Some s\<rparr>, [Success, Rerun]))))
   \<and> (r = pre @ OPEN_TAG @ mid @ CLOSE_TAG @ post \<and> py_find OPEN_TAG r = Some (length pre)
        \<and> py_find CLOSE_TAG r = Some (length pre + 14 + length mid)
        \<longrightarrow> json_str_of r = Inr (py_strip mid))
   \<and> snd (finalizar loads r (st\<lparr>messages := ms\<rparr>)) = snd (finalizar loads r st)
   \<and> fst (finalizar loads r (st\<lparr>messages := ms\<rparr>)) = (fst (finalizar loads r st))\<lparr>messages := ms\<rparr>
   \<and> (py_find OPEN_TAG r = Some i \<and> py_find CLOSE_TAG r = Some j \<and> j < i \<and> loads [] = Inl e
        \<longrightarrow> json_str_of r = Inr [] \<and> finalizar loads r st = (st, [Warning e]))
   \<and> (py_find OPEN_TAG r = Some i \<and> py_find CLOSE_TAG r = Some j
        \<longrightarrow> prefix OPEN_TAG (drop i r) \<and> (\<forall>k<i. \<not> prefix OPEN_TAG (drop k r))
            \<and> prefix CLOSE_TAG (drop j r) \<and> (\<forall>k<j. \<not> prefix CLOSE_TAG (drop k r)))"
proof (intro conjI impI)
  assume "\<not> (py_in OPEN_TAG r \<and> py_in CLOSE_TAG r)"
  then show "finalizar loads r st = (st, [])" by (auto simp: finalizar_def)
next
  assume "py_in OPEN_TAG r \<and> py_in CLOSE_TAG r"
  then show "\<exists>i j. py_find OPEN_TAG r = Some i \<and> py_find CLOSE_TAG r = Some j"
    by (simp add: py_in_def)
next
  assume h: "py_find OPEN_TAG r = Some i \<and> py_find CLOSE_TAG r = Some j"
  then show "json_str_of r = Inr (py_strip (py_slice r (i + 14) j))"
    by (simp add: json_str_of_found)
  from h show "finalizar loads r st =
                (case loads (py_strip (py_slice r (i + 14) j)) of
                   Inl e \<Rightarrow> (st, [Warning e])
                 | Inr data \<Rightarrow>
                     (case SumarioPaciente_call data of
                        Inl e \<Rightarrow> (st, [Warning e])
                      | Inr s \<Rightarrow> (st\<lparr>sumario_final := Some s\<rparr>, [Success, Rerun])))"
    by (simp add: finalizar_found)
next
  assume h: "r = pre @ OPEN_TAG @ mid @ CLOSE_TAG @ post \<and> py_find OPEN_TAG r = Some (length pre)
        \<and> py_find CLOSE_TAG r = Some (length pre + 14 + length mid)"
  note a = h [THEN conjunct2, THEN conjunct1] and b = h [THEN conjunct2, THEN conjunct2]
  have "json_str_of r
       = Inr (py_strip (py_slice r (length pre + 14) (length pre + 14 + length mid)))"
    by (rule json_str_of_found [OF a b])
  moreover have "py_slice r (length pre + 14) (length pre + 14 + length mid) = mid"
    using h py_slice_between [of pre OPEN_TAG mid "CLOSE_TAG @ post"]
    by (simp add: length_OPEN_TAG)
  ultimately show "json_str_of r = Inr (py_strip mid)" by simp
next
  show "snd (finalizar loads r (st\<lparr>messages := ms\<rparr>)) = snd (finalizar loads r st)"
    by (simp add: finalizar_history)
  show "fst (finalizar loads r (st\<lparr>messages := ms\<rparr>))
          = (fst (finalizar loads r st))\<lparr>messages := ms\<rparr>"
    by (simp add: finalizar_history)
next
  assume h: "py_find OPEN_TAG r = Some i \<and> py_find CLOSE_TAG r = Some j \<and> j < i
               \<and> loads [] = Inl e"
  then have s: "py_strip (py_slice r (i + 14) j) = []"
    by (simp add: py_slice_def py_strip_def)
  with h show "json_str_of r = Inr []" by (simp add: json_str_of_found)
  from h s show "finalizar loads r st = (st, [Warning e])"
    by (simp add: finalizar_found)
next
  assume h: "py_find OPEN_TAG r = Some i \<and> py_find CLOSE_TAG r = Some j"
  note a = py_find_lowest [OF h [THEN conjunct1]] and b = py_find_lowest [OF h [THEN conjunct2]]
  from a show "prefix OPEN_TAG (drop i r)" by simp
  from a show "\<forall>k<i. \<not> prefix OPEN_TAG (drop k r)" by simp
  from b show "prefix CLOSE_TAG (drop j r)" by simp
  from b show "\<forall>k<j. \<not> prefix CLOSE_TAG (drop k r)" by simp
qed

theorem finalizar_trigger_and_payload_witness:
  "finalizar loads_sample answer_question init_session = (init_session, [])
   \<and> json_str_of answer_final = Inr (py_strip ([10] @ sample_json @ [10]))
   \<and> finalizar loads_sample answer_final init_session
       = (init_session\<lparr>sumario_final := Some sample_sumario\<rparr>, [Success, Rerun])
   \<and> json_str_of answer_reversed = Inr []
   \<and> finalizar loads_sample answer_reversed init_session
       = (init_session, [Warning (JSONDecodeError (lit ''Expecting value''))])"
proof (intro conjI)
  note T = finalizar_trigger_and_payload
  have q: "\<not> (py_in OPEN_TAG answer_question \<and> py_in CLOSE_TAG answer_question)"
    by (simp add: answer_question_in)
  from T [THEN conjunct1, rule_format, OF q]
  show "finalizar loads_sample answer_question init_session = (init_session, [])" .
next
  have d: "answer_final = (lit ''Pronto:'' @ [10]) @ OPEN_TAG @ ([10] @ sample_json @ [10])
             @ CLOSE_TAG @ []
           \<and> py_find OPEN_TAG answer_final = Some (length (lit ''Pronto:'' @ [10]))
           \<and> py_find CLOSE_TAG answer_final
               = Some (length (lit ''Pronto:'' @ [10]) + 14 + length ([10] @ sample_json @ [10]))"
    by (simp add: answer_final_def OPEN_TAG_codes CLOSE_TAG_codes sample_json_def lit_def)
  from finalizar_trigger_and_payload [THEN conjunct2, THEN conjunct2, THEN conjunct2,
      THEN conjunct1, rule_format, OF d]
  show "json_str_of answer_final = Inr (py_strip ([10] @ sample_json @ [10]))" .
next
  have f: "py_find OPEN_TAG answer_final = Some 8 \<and> py_find CLOSE_TAG answer_final = Some 135"
    by (simp add: answer_final_def OPEN_TAG_codes CLOSE_TAG_codes sample_json_def lit_def)
  have p: "py_strip (py_slice answer_final 22 135) = sample_json"
    by (simp add: answer_final_def OPEN_TAG_codes CLOSE_TAG_codes sample_json_def lit_def
        py_slice_def py_strip_def py_isspace_def)
  from finalizar_trigger_and_payload [THEN conjunct2, THEN conjunct2, THEN conjunct1,
      rule_format, OF f, THEN conjunct2, of loads_sample init_session]
  show "finalizar loads_sample answer_final init_session
       = (init_session\<lparr>sumario_final := Some sample_sumario\<rparr>, [Success, Rerun])"
    by (simp add: p loads_sample_json sample_args_ok)
next
  have g: "py_find OPEN_TAG answer_reversed = Some 19 \<and> py_find CLOSE_TAG answer_reversed = Some 0
           \<and> (0::nat) < 19
           \<and> loads_sample [] = Inl (JSONDecodeError (lit ''Expecting value''))"
    by (simp add: answer_reversed_find loads_sample_empty)
  note r = finalizar_trigger_and_payload [where loads = loads_sample and r = answer_reversed
      and i = 19 and j = 0, THEN conjunct2, THEN conjunct2, THEN conjunct2,
      THEN conjunct2, THEN conjunct2, THEN conjunct2, THEN conjunct1, rule_format, OF g]
  show "json_str_of answer_reversed = Inr []" by (rule r [THEN conjunct1])
  show "finalizar loads_sample answer_reversed init_session
       = (init_session, [Warning (JSONDecodeError (lit ''Expecting value''))])"
    by (rule r [THEN conjunct2])
qed

lemma finalizar_failure:
  assumes "py_in OPEN_TAG r" and "py_in CLOSE_TAG r" and "json_str_of r = Inr js"
    and "loads js = Inl e \<or> (loads js = Inr data \<and> SumarioPaciente_call data = Inl e)"
  shows "finalizar loads r st = (st, [Warning e])"
  using assms by (auto simp: finalizar_def)

lemma finalizar_success:
  assumes "py_in OPEN_TAG r" and "py_in CLOSE_TAG r" and "json_str_of r = Inr js"
    and "loads js = Inr data" and "SumarioPaciente_call data = Inr s"
  shows "finalizar loads r st = (st\<lparr>sumario_final := Some s\<rparr>, [Success, Rerun])"
  using assms by (simp add: finalizar_def)

lemma chat_turn_answered:
  assumes "stream \<lparr>chat_model = CLAUDE_MODEL, chat_max_tokens = 2048, chat_system = SP,
                    chat_messages = messages st @ [(lit ''user'', prompt)]\<rparr> w
             = ((chunks, None), w')"
  shows "chat_turn stream loads SP prompt st w
           = (finalizar loads (foldl (@) [] chunks)
                (st\<lparr>messages := messages st @ [(lit ''user'', prompt),
                                                (lit ''assistant'', foldl (@) [] chunks)]\<rparr>), w')"
  using assms by (simp add: chat_turn_def Let_def)

text \<open>
  C4. When the answer contains both tags and its payload fails, in \<open>json.loads\<close> or in
  the construction of the record, the block leaves the session exactly as it was (the
  stored record, if any, and the history included) and shows one warning, with no
  rerun. For the whole turn: the history gains the user's message and the answer, the
  stored record is the one from before, and the warning is all that is shown. The
  session goes on: from any state, the one left by a failure included, an answer with
  a fitting payload stores its record.
\<close>

theorem failed_payload_keeps_session:
  "(py_in OPEN_TAG r \<and> py_in CLOSE_TAG r \<and> json_str_of r = Inr js
      \<and> (loads js = Inl e \<or> (loads js = Inr data \<and> SumarioPaciente_call data = Inl e))
      \<longrightarrow> finalizar loads r st = (st, [Warning e]))
   \<and> (py_in OPEN_TAG r \<and> py_in CLOSE_TAG r \<and> json_str_of r = Inr js
      \<and> (loads js = Inl e \<or> (loads js = Inr data \<and> SumarioPaciente_call data = Inl e))
      \<and> stream \<lparr>chat_model = CLAUDE_MODEL, chat_max_tokens = 2048, chat_system = SP,
                  chat_messages = messages st @ [(lit ''user'', prompt)]\<rparr> w
           = ((chunks, None), w')
      \<and> foldl (@) [] chunks = r
      \<longrightarrow> chat_turn stream loads SP prompt st w
            = ((st\<lparr>messages := messages st @ [(lit ''user'', prompt), (lit ''assistant'', r)]\<rparr>,
                [Warning e]), w'))
   \<and> (py_in OPEN_TAG r2 \<and> py_in CLOSE_TAG r2 \<and> json_str_of r2 = Inr js2
      \<and> loads js2 = Inr data2 \<and> SumarioPaciente_call data2 = Inr s2
      \<longrightarrow> finalizar loads r2 st2 = (st2\<lparr>sumario_final := Some s2\<rparr>, [Success, Rerun]))"
proof (intro conjI impI)
  assume "py_in OPEN_TAG r \<and> py_in CLOSE_TAG r \<and> json_str_of r = Inr js
      \<and> (loads js = Inl e \<or> (loads js = Inr data \<and> SumarioPaciente_call data = Inl e))"
  then show "finalizar loads r st = (st, [Warning e])"
    by (intro finalizar_failure [where js = js and data = data]) simp_all
next
  assume h: "py_in OPEN_TAG r \<and> py_in CLOSE_TAG r \<and> json_str_of r = Inr js
      \<and> (loads js = Inl e \<or> (loads js = Inr data \<and> SumarioPaciente_call data = Inl e))
      \<and> stream \<lparr>chat_model = CLAUDE_MODEL, chat_max_tokens = 2048, chat_system = SP,
                  chat_messages = messages st @ [(lit ''user'', prompt)]\<rparr> w
           = ((chunks, None), w')
      \<and> foldl (@) [] chunks = r"
  then have s: "stream \<lparr>chat_model = CLAUDE_MODEL, chat_max_tokens = 2048, chat_system = SP,
                  chat_messages = messages st @ [(lit ''user'', prompt)]\<rparr> w
           = ((chunks, None), w')" and c: "foldl (@) [] chunks = r" by simp_all
  have "finalizar loads r
          (st\<lparr>messages := messages st @ [(lit ''user'', prompt), (lit ''assistant'', r)]\<rparr>)
        = (st\<lparr>messages := messages st @ [(lit ''user'', prompt), (lit ''assistant'', r)]\<rparr>,
           [Warning e])"
    using h by (intro finalizar_failure [where js = js and data = data]) simp_all
  moreover have "chat_turn stream loads SP prompt st w
      = (finalizar loads r
           (st\<lparr>messages := messages st @ [(lit ''user'', prompt), (lit ''assistant'', r)]\<rparr>), w')"
    using s c by (simp add: chat_turn_def Let_def)
  ultimately show "chat_turn stream loads SP prompt st w
            = ((st\<lparr>messages := messages st @ [(lit ''user'', prompt), (lit ''assistant'', r)]\<rparr>,
                [Warning e]), w')"
    by simp
next
  assume "py_in OPEN_TAG r2 \<and> py_in CLOSE_TAG r2 \<and> json_str_of r2 = Inr js2
      \<and> loads js2 = Inr data2 \<and> SumarioPaciente_call data2 = Inr s2"
  then show "finalizar loads r2 st2 = (st2\<lparr>sumario_final := Some s2\<rparr>, [Success, Rerun])"
    by (intro finalizar_success [where js = js2 and data = data2]) simp_all
qed

lemma answer_offschema_in: "py_in OPEN_TAG answer_offschema \<and> py_in CLOSE_TAG answer_offschema"
  by (simp add: py_in_def answer_offschema_def OPEN_TAG_codes CLOSE_TAG_codes lit_def)

lemma answer_broken_facts:
  "py_in OPEN_TAG answer_broken \<and> py_in CLOSE_TAG answer_broken
   \<and> json_str_of answer_broken = Inr (lit ''leito 3'')"
  by (simp add: py_in_def json_str_of_def py_index_def answer_broken_def OPEN_TAG_codes
      CLOSE_TAG_codes lit_def py_slice_def py_strip_def py_isspace_def)

lemma answer_array_facts:
  "py_in OPEN_TAG answer_array \<and> py_in CLOSE_TAG answer_array
   \<and> json_str_of answer_array = Inr (lit ''[1]'')"
  by (simp add: py_in_def json_str_of_def py_index_def answer_array_def OPEN_TAG_codes
      CLOSE_TAG_codes lit_def py_slice_def py_strip_def py_isspace_def)

lemma loads_sample_broken:
  "loads_sample (lit ''leito 3'') = Inl (JSONDecodeError (lit ''Expecting value''))"
  by (simp add: loads_sample_def sample_json_def lit_def)

lemma loads_sample_array: "loads_sample (lit ''[1]'') = Inr (PList [PInt 1])"
  by (simp add: loads_sample_def sample_json_def lit_def)

lemma empty_args_rejected:
  "SumarioPaciente_call (PDict []) =
     Inl (ValidationError [Missing (lit ''leito''), Missing (lit ''nome_paciente''),
            Missing (lit ''diagnosticos''), Missing (lit ''pendencias''),
            Missing (lit ''condutas'')])"
  by (simp add: SumarioPaciente_init_def)

theorem failed_payload_keeps_session_witness:
  "finalizar loads_sample answer_broken
      (init_session\<lparr>sumario_final := Some sample_sumario\<rparr>)
     = (init_session\<lparr>sumario_final := Some sample_sumario\<rparr>,
        [Warning (JSONDecodeError (lit ''Expecting value''))])
   \<and> finalizar loads_sample answer_array init_session = (init_session, [Warning TypeError])
   \<and> chat_turn (stream_of (OPEN_TAG @ lit '' {} '') (CLOSE_TAG @ lit '' ok?'')) loads_sample
      (lit ''SYS'') (lit ''confirmo'') init_session []
     = ((init_session\<lparr>messages := messages init_session
                          @ [(lit ''user'', lit ''confirmo''),
                             (lit ''assistant'', answer_offschema)]\<rparr>,
         [Warning (ValidationError [Missing (lit ''leito''), Missing (lit ''nome_paciente''),
            Missing (lit ''diagnosticos''), Missing (lit ''pendencias''),
            Missing (lit ''condutas'')])]), [''stream''])
   \<and> finalizar loads_sample answer_final
        (init_session\<lparr>messages := [(lit ''user'', lit ''confirmo''),
                                    (lit ''assistant'', answer_offschema)]\<rparr>)
     = (init_session\<lparr>messages := [(lit ''user'', lit ''confirmo''),
                                   (lit ''assistant'', answer_offschema)],
                      sumario_final := Some sample_sumario\<rparr>, [Success, Rerun])"
proof (intro conjI)
  have b: "py_in OPEN_TAG answer_broken \<and> py_in CLOSE_TAG answer_broken
      \<and> json_str_of answer_broken = Inr (lit ''leito 3'')
      \<and> (loads_sample (lit ''leito 3'') = Inl (JSONDecodeError (lit ''Expecting value''))
          \<or> (loads_sample (lit ''leito 3'') = Inr PNone
              \<and> SumarioPaciente_call PNone = Inl (JSONDecodeError (lit ''Expecting value''))))"
    by (simp add: answer_broken_facts loads_sample_broken)
  from failed_payload_keeps_session [where loads = loads_sample and r = answer_broken
      and js = "lit ''leito 3''" and data = PNone
      and e = "JSONDecodeError (lit ''Expecting value'')",
      THEN conjunct1, rule_format, OF b]
  show "finalizar loads_sample answer_broken
      (init_session\<lparr>sumario_final := Some sample_sumario\<rparr>)
     = (init_session\<lparr>sumario_final := Some sample_sumario\<rparr>,
        [Warning (JSONDecodeError (lit ''Expecting value''))])" .
next
  have a: "py_in OPEN_TAG answer_array \<and> py_in CLOSE_TAG answer_array
      \<and> json_str_of answer_array = Inr (lit ''[1]'')
      \<and> (loads_sample (lit ''[1]'') = Inl TypeError
          \<or> (loads_sample (lit ''[1]'') = Inr (PList [PInt 1])
              \<and> SumarioPaciente_call (PList [PInt 1]) = Inl TypeError))"
    by (simp add: answer_array_facts loads_sample_array)
  from failed_payload_keeps_session [where loads = loads_sample and r = answer_array
      and js = "lit ''[1]''" and data = "PList [PInt 1]" and e = TypeError,
      THEN conjunct1, rule_format, OF a]
  show "finalizar loads_sample answer_array init_session = (init_session, [Warning TypeError])" .
next
  let ?e = "ValidationError [Missing (lit ''leito''), Missing (lit ''nome_paciente''),
            Missing (lit ''diagnosticos''), Missing (lit ''pendencias''),
            Missing (lit ''condutas'')]"
  have h: "py_in OPEN_TAG answer_offschema \<and> py_in CLOSE_TAG answer_offschema
      \<and> json_str_of answer_offschema = Inr (lit ''{}'')
      \<and> (loads_sample (lit ''{}'') = Inl ?e
          \<or> (loads_sample (lit ''{}'') = Inr (PDict []) \<and> SumarioPaciente_call (PDict []) = Inl ?e))
      \<and> stream_of (OPEN_TAG @ lit '' {} '') (CLOSE_TAG @ lit '' ok?'')
           \<lparr>chat_model = CLAUDE_MODEL, chat_max_tokens = 2048, chat_system = lit ''SYS'',
            chat_messages = messages init_session @ [(lit ''user'', lit ''confirmo'')]\<rparr> []
           = (([OPEN_TAG @ lit '' {} '', CLOSE_TAG @ lit '' ok?''], None), [''stream''])
      \<and> foldl (@) [] [OPEN_TAG @ lit '' {} '', CLOSE_TAG @ lit '' ok?''] = answer_offschema"
  proof (intro conjI)
    show "foldl (@) [] [OPEN_TAG @ lit '' {} '', CLOSE_TAG @ lit '' ok?''] = answer_offschema"
      by (simp add: answer_offschema_def)
  qed (simp_all add: answer_offschema_in answer_offschema_json loads_sample_obj
        empty_args_rejected stream_of_def del: SumarioPaciente_call.simps)
  from failed_payload_keeps_session [where loads = loads_sample
      and stream = "stream_of (OPEN_TAG @ lit '' {} '') (CLOSE_TAG @ lit '' ok?'')"
      and r = answer_offschema and js = "lit ''{}''" and data = "PDict []" and e = ?e
      and SP = "lit ''SYS''" and st = init_session and prompt = "lit ''confirmo''"
      and w = "[]" and w' = "[''stream'']"
      and chunks = "[OPEN_TAG @ lit '' {} '', CLOSE_TAG @ lit '' ok?'']",
      THEN conjunct2, THEN conjunct1, rule_format, OF h]
  show "chat_turn (stream_of (OPEN_TAG @ lit '' {} '') (CLOSE_TAG @ lit '' ok?'')) loads_sample
      (lit ''SYS'') (lit ''confirmo'') init_session []
     = ((init_session\<lparr>messages := messages init_session
                          @ [(lit ''user'', lit ''confirmo''),
                             (lit ''assistant'', answer_offschema)]\<rparr>,
         [Warning ?e]), [''stream''])" .
next
  have g: "py_in OPEN_TAG answer_final \<and> py_in CLOSE_TAG answer_final
      \<and> json_str_of answer_final = Inr sample_json
      \<and> loads_sample sample_json = Inr (PDict sample_args)
      \<and> SumarioPaciente_call (PDict sample_args) = Inr sample_sumario"
    by (simp add: answer_final_in answer_final_json loads_sample_json sample_args_ok)
  from failed_payload_keeps_session [where loads = loads_sample and ?r2.0 = answer_final
      and ?js2.0 = sample_json and ?data2.0 = "PDict sample_args" and ?s2.0 = sample_sumario
      and ?st2.0 = "init_session\<lparr>messages := [(lit ''user'', lit ''confirmo''),
                                    (lit ''assistant'', answer_offschema)]\<rparr>",
      THEN conjunct2, THEN conjunct2, rule_format, OF g]
  show "finalizar loads_sample answer_final
        (init_session\<lparr>messages := [(lit ''user'', lit ''confirmo''),
                                    (lit ''assistant'', answer_offschema)]\<rparr>)
     = (init_session\<lparr>messages := [(lit ''user'', lit ''confirmo''),
                                   (lit ''assistant'', answer_offschema)],
                      sumario_final := Some sample_sumario\<rparr>, [Success, Rerun])"
    by simp
qed

section \<open>The two stages and the pipeline\<close>

lemma groq_up_run:
  "transcribe_audio groq_up b f k log = (Inr (lit ''Leito 3, Ana''), log @ [''groq''])"
  by (simp add: transcribe_audio_def groq_up_def sample_response_def)

lemma groq_down_run:
  "transcribe_audio groq_down b f k log = (Inl CONNECTION_ERROR, log @ [''groq''])"
  by (simp add: transcribe_audio_def groq_down_def)

lemma claude_up_run:
  "analyze_transcription claude_up P t k log = (Inr sample_sumario, log @ [''claude''])"
  by (simp add: analyze_transcription_def claude_up_def)

lemma claude_down_run:
  "analyze_transcription claude_down P t k log = (Inl CONNECTION_ERROR, log @ [''claude''])"
  by (simp add: analyze_transcription_def claude_down_def)

text \<open>
  C8. For every byte sequence and filename the adapter makes one call to the speech
  service, with the pair (filename, bytes) as given, the model \<open>whisper-large-v3-turbo\<close>,
  temperature 0 and the response format \<open>verbose_json\<close>, and returns the field \<open>text\<close> of
  the response (or the exception of the service). Nothing else of the response is
  read: cutting every response down to its \<open>text\<close> gives the same result.
\<close>

theorem transcribe_audio_request:
  "transcribe_audio groq audio_bytes filename k w =
     (case groq \<lparr>stt_api_key = k, stt_file = (filename, audio_bytes),
                  stt_model = lit ''whisper-large-v3-turbo'', stt_temperature = 0,
                  stt_response_format = lit ''verbose_json''\<rparr> w of
        (Inl e, w') \<Rightarrow> (Inl e, w')
      | (Inr r, w') \<Rightarrow> (Inr (resp_text r), w'))
   \<and> transcribe_audio
         (\<lambda>req w. case groq req w of
                     (Inl e, w') \<Rightarrow> (Inl e, w')
                   | (Inr r, w') \<Rightarrow> (Inr (stt_response.truncate r), w'))
         audio_bytes filename k w
       = transcribe_audio groq audio_bytes filename k w"
  by (simp add: transcribe_audio_def WHISPER_MODEL_def stt_response.truncate_def
      split: prod.splits sum.splits)

theorem transcribe_audio_request_witness:
  "transcribe_audio (\<lambda>req log. (Inr sample_response, log @ [req])) [0x52, 0x49] (lit ''a.wav'')
      (lit ''gk'') []
    = (Inr (lit ''Leito 3, Ana''),
       [\<lparr>stt_api_key = lit ''gk'', stt_file = (lit ''a.wav'', [0x52, 0x49]),
         stt_model = lit ''whisper-large-v3-turbo'', stt_temperature = 0,
         stt_response_format = lit ''verbose_json''\<rparr>])"
  using transcribe_audio_request [THEN conjunct1,
      of "\<lambda>req log. (Inr sample_response, log @ [req])" "[0x52, 0x49]" "lit ''a.wav''"
         "lit ''gk''" "[]"]
  by (simp add: sample_response_def)

text \<open>
  C6, as the code has it. Every failure of \<open>transcribe_audio\<close> is the exception that the
  one call to the speech client raised: the same exception, not wrapped in another, and
  the world is the one that call left. The same holds for \<open>analyze_transcription\<close> and
  the one call of the chain. Neither function calls its client a second time: when the
  call raises, the function raises, although a second call would have answered.
\<close>

theorem stage_failures_surface_unwrapped:
  "(transcribe_audio groq audio_bytes filename gk w = (Inl e, w'))
     = (groq \<lparr>stt_api_key = gk, stt_file = (filename, audio_bytes), stt_model = WHISPER_MODEL,
              stt_temperature = 0, stt_response_format = lit ''verbose_json''\<rparr> w
          = (Inl e, w'))
   \<and> (analyze_transcription chain P t ak w = (Inl e, w'))
     = (chain \<lparr>gen_api_key = ak, gen_model = CLAUDE_MODEL, gen_temperature = 0,
               gen_system = SYSTEM_PROMPT P,
               gen_human = HUMAN_PROMPT_BEFORE P @ t @ HUMAN_PROMPT_AFTER P\<rparr> w
          = (Inl e, w'))"
  by (auto simp: transcribe_audio_def analyze_transcription_def split: prod.splits sum.splits)

theorem stage_failures_surface_unwrapped_witness:
  "transcribe_audio groq_flaky [0x52, 0x49] (lit ''a.wav'') (lit ''gk'') []
     = (Inl CONNECTION_ERROR, [''groq''])
   \<and> analyze_transcription claude_flaky sample_prompts (lit ''Leito 3, Ana'') (lit ''ak'') []
     = (Inl CONNECTION_ERROR, [''claude''])"
proof (intro conjI)
  have a: "groq_flaky \<lparr>stt_api_key = lit ''gk'', stt_file = (lit ''a.wav'', [0x52, 0x49]),
             stt_model = WHISPER_MODEL, stt_temperature = 0,
             stt_response_format = lit ''verbose_json''\<rparr> []
           = (Inl CONNECTION_ERROR, [''groq''])"
    by (simp add: groq_flaky_def)
  from stage_failures_surface_unwrapped [where groq = groq_flaky, THEN conjunct1,
      THEN iffD2, OF a]
  show "transcribe_audio groq_flaky [0x52, 0x49] (lit ''a.wav'') (lit ''gk'') []
          = (Inl CONNECTION_ERROR, [''groq''])" .
next
  have b: "claude_flaky \<lparr>gen_api_key = lit ''ak'', gen_model = CLAUDE_MODEL, gen_temperature = 0,
             gen_system = SYSTEM_PROMPT sample_prompts,
             gen_human = HUMAN_PROMPT_BEFORE sample_prompts @ lit ''Leito 3, Ana''
                           @ HUMAN_PROMPT_AFTER sample_prompts\<rparr> []
           = (Inl CONNECTION_ERROR, [''claude''])"
    by (simp add: claude_flaky_def)
  from stage_failures_surface_unwrapped [where chain = claude_flaky, THEN conjunct2,
      THEN iffD2, OF b]
  show "analyze_transcription claude_flaky sample_prompts (lit ''Leito 3, Ana'') (lit ''ak'') []
          = (Inl CONNECTION_ERROR, [''claude''])" .
qed

text \<open>
  C6, as the claim has it, fails: when the call to the speech client raises the
  library's \<open>APIConnectionError\<close>, that is the exception that reaches the caller of
  \<open>transcribe_audio\<close>, of class neither \<open>TranscriptionError\<close> nor \<open>ExtractionError\<close>; and
  the extraction stage surfaces the same class of exception for the same fault, so the
  class does not tell the stages apart.
\<close>

theorem stage_failures_counterexample:
  "transcribe_audio groq_down [0x52, 0x49] (lit ''a.wav'') (lit ''gk'') []
     = (Inl (External (lit ''APIConnectionError'') (lit ''Connection error.'')), [''groq''])
   \<and> analyze_transcription claude_down sample_prompts (lit ''Leito 3, Ana'') (lit ''ak'') []
     = (Inl (External (lit ''APIConnectionError'') (lit ''Connection error.'')), [''claude''])
   \<and> exn_class (External (lit ''APIConnectionError'') (lit ''Connection error.''))
       \<noteq> lit ''TranscriptionError''
   \<and> exn_class (External (lit ''APIConnectionError'') (lit ''Connection error.''))
       \<noteq> lit ''ExtractionError''"
  by (simp add: transcribe_audio_def analyze_transcription_def groq_down_def claude_down_def
      CONNECTION_ERROR_def lit_def)

text \<open>
  C1. \<open>process_audio\<close> runs the transcription and then, on its text alone, the
  extraction. If the transcription raises, \<open>process_audio\<close> raises that exception and
  the chain is not called (the world is the one the transcription left).
  If the extraction raises, \<open>process_audio\<close> raises that exception, and the transcript is
  not returned. Otherwise it returns exactly the pair of the transcript and the record.
\<close>

theorem process_audio_pipeline:
  "(transcribe_audio groq audio_bytes filename gk w = (Inl e, w1)
      \<longrightarrow> process_audio groq chain P audio_bytes filename gk ak w = (Inl e, w1))
   \<and> (transcribe_audio groq audio_bytes filename gk w = (Inr t, w1)
        \<and> analyze_transcription chain P t ak w1 = (Inl e, w2)
      \<longrightarrow> process_audio groq chain P audio_bytes filename gk ak w = (Inl e, w2))
   \<and> (transcribe_audio groq audio_bytes filename gk w = (Inr t, w1)
        \<and> analyze_transcription chain P t ak w1 = (Inr s, w2)
      \<longrightarrow> process_audio groq chain P audio_bytes filename gk ak w = (Inr (t, s), w2))"
  by (simp add: process_audio_def)

theorem process_audio_pipeline_witness:
  "process_audio groq_down claude_up sample_prompts [0x52, 0x49] (lit ''a.wav'') (lit ''gk'')
      (lit ''ak'') [] = (Inl CONNECTION_ERROR, [''groq''])
   \<and> process_audio groq_up claude_down sample_prompts [0x52, 0x49] (lit ''a.wav'') (lit ''gk'')
      (lit ''ak'') [] = (Inl CONNECTION_ERROR, [''groq'', ''claude''])
   \<and> process_audio groq_up claude_up sample_prompts [0x52, 0x49] (lit ''a.wav'') (lit ''gk'')
      (lit ''ak'') [] = (Inr (lit ''Leito 3, Ana'', sample_sumario), [''groq'', ''claude''])"
proof (intro conjI)
  have a: "transcribe_audio groq_down [0x52, 0x49] (lit ''a.wav'') (lit ''gk'') []
             = (Inl CONNECTION_ERROR, [''groq''])"
    using groq_down_run [of _ _ _ "[]"] by simp
  from process_audio_pipeline [THEN conjunct1, rule_format, OF a]
  show "process_audio groq_down claude_up sample_prompts [0x52, 0x49] (lit ''a.wav'')
          (lit ''gk'') (lit ''ak'') [] = (Inl CONNECTION_ERROR, [''groq''])" .
next
  have b: "transcribe_audio groq_up [0x52, 0x49] (lit ''a.wav'') (lit ''gk'') []
             = (Inr (lit ''Leito 3, Ana''), [''groq''])"
    using groq_up_run [of _ _ _ "[]"] by simp
  have c: "analyze_transcription claude_down sample_prompts (lit ''Leito 3, Ana'') (lit ''ak'')
             [''groq''] = (Inl CONNECTION_ERROR, [''groq'', ''claude''])"
    using claude_down_run [of _ _ _ "[''groq'']"] by simp
  from process_audio_pipeline [THEN conjunct2, THEN conjunct1, rule_format, OF conjI, OF b c]
  show "process_audio groq_up claude_down sample_prompts [0x52, 0x49] (lit ''a.wav'')
          (lit ''gk'') (lit ''ak'') [] = (Inl CONNECTION_ERROR, [''groq'', ''claude''])" .
next
  have b: "transcribe_audio groq_up [0x52, 0x49] (lit ''a.wav'') (lit ''gk'') []
             = (Inr (lit ''Leito 3, Ana''), [''groq''])"
    using groq_up_run [of _ _ _ "[]"] by simp
  have c: "analyze_transcription claude_up sample_prompts (lit ''Leito 3, Ana'') (lit ''ak'')
             [''groq''] = (Inr sample_sumario, [''groq'', ''claude''])"
    using claude_up_run [of _ _ _ "[''groq'']"] by simp
  from process_audio_pipeline [THEN conjunct2, THEN conjunct2, rule_format, OF conjI, OF b c]
  show "process_audio groq_up claude_up sample_prompts [0x52, 0x49] (lit ''a.wav'')
          (lit ''gk'') (lit ''ak'') []
        = (Inr (lit ''Leito 3, Ana'', sample_sumario), [''groq'', ''claude''])" .
qed

section \<open>Clearing the conversation\<close>

text \<open>
  C7. From every session state, whatever its history, transcription and stored record,
  the button "Limpar Conversa" leaves the session as the initialisation of the script
  does: no messages, no transcription, no stored record.
\<close>

theorem limpar_conversa_resets:
  "fst (limpar_conversa st) = init_session
   \<and> messages (fst (limpar_conversa st)) = []
   \<and> transcription (fst (limpar_conversa st)) = None
   \<and> sumario_final (fst (limpar_conversa st)) = None"
  by (cases st) (simp add: limpar_conversa_def init_session_def)

theorem limpar_conversa_resets_witness:
  "fst (limpar_conversa
          \<lparr>messages = [(lit ''user'', lit ''confirmo''), (lit ''assistant'', answer_final)],
           transcription = Some (lit ''Leito 3, Ana''),
           sumario_final = Some sample_sumario\<rparr>) = init_session"
  using limpar_conversa_resets [THEN conjunct1,
      of "\<lparr>messages = [(lit ''user'', lit ''confirmo''), (lit ''assistant'', answer_final)],
           transcription = Some (lit ''Leito 3, Ana''),
           sumario_final = Some sample_sumario\<rparr>"]
  by simp

section \<open>The record and its dict\<close>

lemma model_dump_roundtrip: "SumarioPaciente_call (PDict (model_dump s)) = Inr s"
  by (simp add: init_Inr_iff model_dump_def lit_def)

end
